theory Spec2Isabelle
  imports Complex_Main "HOL-Library.Multiset" "HOL-Library.Sublist"
begin

section \<open>The backing store\<close>

text \<open>
  Every function of the three stores talks to a DynamoDB table through the document client.
  A table is modelled by the list of its items together with a flag telling whether the
  service answers: a request to a table that is not \<open>reachable\<close> is rejected, which in the
  source is an exception thrown by \<^verbatim>\<open>.promise()\<close>. Request validation done by the service
  itself is outside the model: a query returns the items its key condition and its filter
  expression select, in the order of the sort key.

  JavaScript numbers are modelled by \<open>real\<close> (measured values, prices, similarities) and by
  \<open>int\<close> (epoch milliseconds, counts), without IEEE rounding; the suitability scores of the
  crop recommendation are IEEE doubles, added with rounding. \<^verbatim>\<open>Date.now()\<close> is the
  parameter \<open>now\<close>. Serialised JSON (\<^verbatim>\<open>JSON.stringify\<close>) is kept as a string.
\<close>

datatype error =
  Error string   \<comment> \<open>\<^verbatim>\<open>new Error(message)\<close>, the only error class the source raises itself\<close>
| ServiceError   \<comment> \<open>a request rejected by the backing service\<close>

text \<open>
  The \<^verbatim>\<open>name\<close> of an error object, by which a caller tells error types apart: \<^verbatim>\<open>"Error"\<close> for
  the errors the source raises itself. The names of the service's errors are not modelled.
\<close>

fun error_name :: "error \<Rightarrow> string option" where
  "error_name (Error message) = Some ''Error''"
| "error_name ServiceError = None"

record 'a table =
  reachable :: bool
  rows :: "'a list"


text \<open>\<^verbatim>\<open>xs.reduce((acc, val) => acc + val, 0)\<close>\<close>

definition reduce_sum :: "real list \<Rightarrow> real" where
  "reduce_sum xs = foldl (\<lambda>acc v. acc + v) 0 xs"

text \<open>\<^verbatim>\<open>Math.min(...xs)\<close> and \<^verbatim>\<open>Math.max(...xs)\<close>, only ever applied to non-empty lists.\<close>

definition Math_min :: "real list \<Rightarrow> real" where
  "Math_min xs = Min (set xs)"

definition Math_max :: "real list \<Rightarrow> real" where
  "Math_max xs = Max (set xs)"

section \<open>The time series store\<close>

record TimeSeriesPoint =
  metricId :: string
  timestamp :: int
  pvalue :: real             \<comment> \<open>the field \<^verbatim>\<open>value\<close>\<close>
  location :: "string option"
  source :: string
  unit :: string
  metadata :: "string option"

text \<open>A stored item is a point together with its expiry time.\<close>

record ts_item = TimeSeriesPoint +
  expiryTime :: int

definition dayMs :: int where
  "dayMs = 24 * 60 * 60 * 1000"

text \<open>
  The query \<^verbatim>\<open>metricId = :metricId AND timestamp BETWEEN :startTime AND :endTime\<close> on a table
  whose partition key is \<open>metricId\<close> and whose sort key is \<open>timestamp\<close>.
\<close>

definition query_between :: "ts_item list \<Rightarrow> string \<Rightarrow> int \<Rightarrow> int \<Rightarrow> ts_item list" where
  "query_between items mid startTime endTime =
     sort_key timestamp
       (filter (\<lambda>item. metricId item = mid \<and> startTime \<le> timestamp item \<and> timestamp item \<le> endTime)
          items)"

text \<open>The default \<^verbatim>\<open>endTime = Date.now()\<close> of the range functions.\<close>

definition range_end :: "int \<Rightarrow> int option \<Rightarrow> int" where
  "range_end now endTime = (case endTime of None \<Rightarrow> now | Some e \<Rightarrow> e)"

definition getTimeSeriesData ::
  "ts_item table \<Rightarrow> string \<Rightarrow> int \<Rightarrow> int \<Rightarrow> error + TimeSeriesPoint list" where
  "getTimeSeriesData db mid startTime endTime =
     (if \<not> reachable db then Inl ServiceError
      else Inr (map TimeSeriesPoint.truncate (query_between (rows db) mid startTime endTime)))"

subsection \<open>Statistics\<close>

datatype trend = increasing | decreasing | stable

record statistics =
  s_min :: real
  s_max :: real
  s_avg :: real
  s_count :: nat
  stdDev :: real
  s_trend :: trend

definition no_data_message :: "string \<Rightarrow> string" where
  "no_data_message mid = ''No data found for metric '' @ mid @ '' in the specified time range''"

definition series_statistics :: "TimeSeriesPoint list \<Rightarrow> statistics" where
  "series_statistics data =
     (let values = map pvalue data;
          sum = reduce_sum values;
          avg = sum / real (length values);
          count = length values;
          squaredDiffs = map (\<lambda>v. (v - avg)\<^sup>2) values;
          variance = reduce_sum squaredDiffs / real count;
          timestamps = map timestamp data;
          firstTimestamp = hd timestamps;
          normalizedTimestamps = map (\<lambda>t. real_of_int (t - firstTimestamp) / real_of_int dayMs) timestamps;
          tAvg = reduce_sum normalizedTimestamps / real count;
          vAvg = avg;
          numerator = foldl (\<lambda>acc i. acc + (normalizedTimestamps ! i - tAvg) * (values ! i - vAvg)) 0 [0..<count];
          denominator = foldl (\<lambda>acc i. acc + (normalizedTimestamps ! i - tAvg)\<^sup>2) 0 [0..<count];
          slope = (if denominator \<noteq> 0 then numerator / denominator else 0);
          slopeThreshold = 0.05 * avg
      in \<lparr> s_min = Math_min values, s_max = Math_max values, s_avg = avg, s_count = count,
           stdDev = sqrt variance,
           s_trend = (if slope > slopeThreshold then increasing
                      else if slope < - slopeThreshold then decreasing
                      else stable) \<rparr>)"

text \<open>
  \<open>calculateTimeSeriesStatistics\<close>: the end of the range defaults to \<open>now\<close>; the catch block
  logs and rethrows, so every error passes through unchanged.
\<close>

definition calculateTimeSeriesStatistics ::
  "ts_item table \<Rightarrow> int \<Rightarrow> string \<Rightarrow> int \<Rightarrow> int option \<Rightarrow> error + statistics" where
  "calculateTimeSeriesStatistics db now mid startTime endTime =
     (case getTimeSeriesData db mid startTime (range_end now endTime) of
        Inl e \<Rightarrow> Inl e
      | Inr data \<Rightarrow>
          if length data = 0 then Inl (Error (no_data_message mid))
          else Inr (series_statistics data))"

subsection \<open>Aggregation\<close>

record bucket =
  b_timestamp :: int
  b_min :: real
  b_max :: real
  b_avg :: real
  b_count :: nat

text \<open>
  \<open>periodGroups\<close> is an object keyed by the start of the period. It is kept as an association
  list in insertion order; \<open>push_group\<close> is the body of the for loop: create the group when
  the key is new, then push the value.
\<close>

fun push_group :: "int \<Rightarrow> real \<Rightarrow> (int \<times> real list) list \<Rightarrow> (int \<times> real list) list" where
  "push_group k v [] = [(k, [v])]"
| "push_group k v ((k', vs) # groups) =
     (if k' = k then (k', vs @ [v]) # groups else (k', vs) # push_group k v groups)"

text \<open>The values pushed so far under a key (none when the key is new).\<close>

definition group_values :: "(int \<times> real list) list \<Rightarrow> int \<Rightarrow> real list" where
  "group_values groups k = (case map_of groups k of None \<Rightarrow> [] | Some vs \<Rightarrow> vs)"

text \<open>
  \<^verbatim>\<open>Math.floor(point.timestamp / aggregationPeriodMs) * aggregationPeriodMs\<close>, for a period other
  than zero.
\<close>

definition periodStart :: "int \<Rightarrow> int \<Rightarrow> int" where
  "periodStart aggregationPeriodMs t =
     \<lfloor>real_of_int t / real_of_int aggregationPeriodMs\<rfloor> * aggregationPeriodMs"

definition periodGroups :: "int \<Rightarrow> TimeSeriesPoint list \<Rightarrow> (int \<times> real list) list" where
  "periodGroups aggregationPeriodMs rawData =
     foldl (\<lambda>groups point. push_group (periodStart aggregationPeriodMs (timestamp point)) (pvalue point) groups)
       [] rawData"

definition aggregate_group :: "int \<times> real list \<Rightarrow> bucket" where
  "aggregate_group entry =
     (case entry of (period, values) \<Rightarrow>
        \<lparr> b_timestamp = period,   \<comment> \<open>\<^verbatim>\<open>parseInt\<close> of the key\<close>
          b_min = Math_min values,
          b_max = Math_max values,
          b_avg = reduce_sum values / real (length values),
          b_count = length values \<rparr>)"

text \<open>
  \<open>getAggregatedTimeSeriesData\<close>. The entries of \<open>periodGroups\<close> have distinct keys, so the
  final sort fixes the order of the result whatever the order of \<^verbatim>\<open>Object.entries\<close> is.
\<close>

definition getAggregatedTimeSeriesData ::
  "ts_item table \<Rightarrow> int \<Rightarrow> string \<Rightarrow> int \<Rightarrow> int option \<Rightarrow> int option \<Rightarrow> error + bucket list" where
  "getAggregatedTimeSeriesData db now mid startTime endTime aggregationPeriodMs =
     (case getTimeSeriesData db mid startTime (range_end now endTime) of
        Inl e \<Rightarrow> Inl e
      | Inr rawData \<Rightarrow>
          if length rawData \<le> 1 then
            Inr (map (\<lambda>point. \<lparr> b_timestamp = timestamp point, b_min = pvalue point,
                                 b_max = pvalue point, b_avg = pvalue point, b_count = 1 \<rparr>) rawData)
          else
            Inr (sort_key b_timestamp
                   (map aggregate_group
                      (periodGroups (case aggregationPeriodMs of None \<Rightarrow> dayMs | Some p \<Rightarrow> p) rawData))))"

subsection \<open>Deletion\<close>

text \<open>
  The key condition of \<open>deleteTimeSeriesData\<close> has the \<^verbatim>\<open>BETWEEN\<close> part only when
  \<^verbatim>\<open>startTime && endTime\<close> is truthy: both bounds given and neither of them zero.
\<close>

definition delete_query :: "ts_item list \<Rightarrow> string \<Rightarrow> int option \<Rightarrow> int option \<Rightarrow> ts_item list" where
  "delete_query items mid startTime endTime =
     (case (startTime, endTime) of
        (Some s, Some e) \<Rightarrow>
          if s \<noteq> 0 \<and> e \<noteq> 0 then query_between items mid s e
          else sort_key timestamp (filter (\<lambda>item. metricId item = mid) items)
      | _ \<Rightarrow> sort_key timestamp (filter (\<lambda>item. metricId item = mid) items))"

text \<open>A delete request removes the item stored under the key \<open>(metricId, timestamp)\<close>.\<close>

definition item_key :: "ts_item \<Rightarrow> string \<times> int" where
  "item_key item = (metricId item, timestamp item)"

definition delete_item :: "string \<times> int \<Rightarrow> ts_item list \<Rightarrow> ts_item list" where
  "delete_item key items = filter (\<lambda>item. (metricId item, timestamp item) \<noteq> key) items"

definition deleteTimeSeriesData ::
  "ts_item table \<Rightarrow> string \<Rightarrow> int option \<Rightarrow> int option \<Rightarrow> error + ts_item table" where
  "deleteTimeSeriesData db mid startTime endTime =
     (if \<not> reachable db then Inl ServiceError
      else
        let found = delete_query (rows db) mid startTime endTime
        in if length found = 0 then Inr db
           else Inr (db\<lparr> rows := foldl (\<lambda>items item. delete_item (metricId item, timestamp item) items)
                                      (rows db) found \<rparr>))"

section \<open>Identifiers\<close>

text \<open>
  \<^verbatim>\<open>s.toLowerCase().replace(/\s+/g, '_')\<close> on ASCII strings: upper-case letters are lowered and
  every maximal run of white space becomes one underscore. Nothing is trimmed.
\<close>

definition lower_char :: "char \<Rightarrow> char" where
  "lower_char c =
     (let n = (of_char c :: nat) in if 65 \<le> n \<and> n \<le> 90 then char_of (n + 32) else c)"

definition toLowerCase :: "string \<Rightarrow> string" where
  "toLowerCase s = map lower_char s"

definition is_space :: "char \<Rightarrow> bool" where
  "is_space c = ((of_char c :: nat) \<in> {9, 10, 11, 12, 13, 32})"

fun replace_spaces :: "bool \<Rightarrow> string \<Rightarrow> string" where
  "replace_spaces inRun [] = []"
| "replace_spaces inRun (c # cs) =
     (if is_space c then (if inRun then replace_spaces True cs else CHR ''_'' # replace_spaces True cs)
      else c # replace_spaces False cs)"

definition slug :: "string \<Rightarrow> string" where
  "slug s = replace_spaces False (toLowerCase s)"

section \<open>Weather forecast\<close>

record forecast_day =
  date :: string
  highTemp :: real
  lowTemp :: real
  rainfall :: real
  humidity :: real
  windSpeed :: real

record temperature_summary =
  t_min :: real
  t_max :: real
  t_avg :: real

record forecast_summary =
  temperature :: "temperature_summary option"
  rainProbability :: real
  agriculturalImplications :: "string list"

record weather_forecast =
  district :: string
  forecast :: "forecast_day list"
  summary :: forecast_summary

text \<open>\<^verbatim>\<open>data[i]?.value ?? d\<close>: the value of the \<open>i\<close>-th point, or the default past the end.\<close>

definition value_or :: "TimeSeriesPoint list \<Rightarrow> nat \<Rightarrow> real \<Rightarrow> real" where
  "value_or data i d = (if i < length data then pvalue (data ! i) else d)"

definition temperature_implications :: "temperature_summary option \<Rightarrow> string list" where
  "temperature_implications temperatureSummary =
     (case temperatureSummary of
        None \<Rightarrow> []
      | Some t \<Rightarrow>
          if t_max t > 35 then
            [''High temperatures may cause heat stress in crops. Consider additional irrigation.'']
          else if t_min t < 10 then
            [''Low temperatures may affect sensitive crops. Monitor for frost damage.'']
          else
            [''Temperature conditions are favorable for most crops.''])"

definition rainfall_implications :: "real \<Rightarrow> int \<Rightarrow> string list" where
  "rainfall_implications totalRainfall days =
     (if totalRainfall > 50 then
        [''Heavy rainfall expected. Ensure proper drainage in fields.'']
      else if totalRainfall < 5 \<and> days \<ge> 7 then
        [''Dry conditions expected. Plan for irrigation if available.'']
      else if totalRainfall > 0 then
        [''Moderate rainfall expected. Good conditions for most crops.'']
      else [])"

text \<open>The five series that \<open>getWeatherForecast\<close> reads for a district.\<close>

definition weather_metric_ids :: "string \<Rightarrow> string list" where
  "weather_metric_ids districtName =
     [''weather:temperature:high:'' @ slug districtName,
      ''weather:temperature:low:'' @ slug districtName,
      ''weather:rainfall:'' @ slug districtName,
      ''weather:humidity:'' @ slug districtName,
      ''weather:wind_speed:'' @ slug districtName]"

text \<open>
  The part of \<open>getWeatherForecast\<close> after the five range queries. \<open>formatDate\<close> stands for
  \<^verbatim>\<open>new Date(t).toISOString().split('T')[0]\<close>; \<open>days\<close> is a whole number other than zero
  (for zero days the rain probability of the source is \<open>0 / 0\<close>, not a number).
\<close>

definition build_forecast ::
  "(int \<Rightarrow> string) \<Rightarrow> int \<Rightarrow> string \<Rightarrow> int \<Rightarrow>
   TimeSeriesPoint list \<Rightarrow> TimeSeriesPoint list \<Rightarrow> TimeSeriesPoint list \<Rightarrow>
   TimeSeriesPoint list \<Rightarrow> TimeSeriesPoint list \<Rightarrow> weather_forecast" where
  "build_forecast formatDate now districtName days highTempData lowTempData rainfallData humidityData windSpeedData =
     (let forecastDays =
            map (\<lambda>i. \<lparr> date = formatDate (now + int i * dayMs),
                        highTemp = value_or highTempData i 25,
                        lowTemp = value_or lowTempData i 15,
                        rainfall = value_or rainfallData i 0,
                        humidity = value_or humidityData i 50,
                        windSpeed = value_or windSpeedData i 5 \<rparr>)
              [0..<nat days];
          allTemps = map pvalue highTempData @ map pvalue lowTempData;
          temperatureSummary =
            (if length allTemps > 0 then
               Some \<lparr> t_min = Math_min allTemps, t_max = Math_max allTemps,
                      t_avg = reduce_sum allTemps / real (length allTemps) \<rparr>
             else None);
          totalRainfall = foldl (\<lambda>acc point. acc + pvalue point) 0 rainfallData;
          rainProb = real (length (filter (\<lambda>point. pvalue point > 0) rainfallData)) / real_of_int days
      in \<lparr> district = districtName,
           forecast = forecastDays,
           summary = \<lparr> temperature = temperatureSummary,
                       rainProbability = rainProb,
                       agriculturalImplications =
                         temperature_implications temperatureSummary @
                         rainfall_implications totalRainfall days \<rparr> \<rparr>)"

definition getWeatherForecast ::
  "ts_item table \<Rightarrow> (int \<Rightarrow> string) \<Rightarrow> int \<Rightarrow> string \<Rightarrow> int option \<Rightarrow> error + weather_forecast" where
  "getWeatherForecast db formatDate now districtName daysArg =
     (let days = (case daysArg of None \<Rightarrow> 7 | Some d \<Rightarrow> d);
          districtId = slug districtName;
          endTime = now + days * dayMs
      in case getTimeSeriesData db (''weather:temperature:high:'' @ districtId) now endTime of
           Inl e \<Rightarrow> Inl e
         | Inr highTempData \<Rightarrow>
       (case getTimeSeriesData db (''weather:temperature:low:'' @ districtId) now endTime of
           Inl e \<Rightarrow> Inl e
         | Inr lowTempData \<Rightarrow>
       (case getTimeSeriesData db (''weather:rainfall:'' @ districtId) now endTime of
           Inl e \<Rightarrow> Inl e
         | Inr rainfallData \<Rightarrow>
       (case getTimeSeriesData db (''weather:humidity:'' @ districtId) now endTime of
           Inl e \<Rightarrow> Inl e
         | Inr humidityData \<Rightarrow>
       (case getTimeSeriesData db (''weather:wind_speed:'' @ districtId) now endTime of
           Inl e \<Rightarrow> Inl e
         | Inr windSpeedData \<Rightarrow>
             Inr (build_forecast formatDate now districtName days highTempData lowTempData rainfallData
                    humidityData windSpeedData))))))"

section \<open>Market prices\<close>

text \<open>
  \<^verbatim>\<open>x.toFixed(2)\<close> for \<open>|x| < 10\<^sup>2\<^sup>1\<close>: the sign, then the integer nearest to \<open>100 * |x|\<close> (the
  larger one on a tie) written in decimal with at least three digits and a point before the
  last two.
\<close>

fun digits :: "nat \<Rightarrow> string" where
  "digits n = (if n < 10 then [char_of (48 + n)] else digits (n div 10) @ [char_of (48 + n mod 10)])"

declare digits.simps [simp del]

definition toFixed2 :: "real \<Rightarrow> string" where
  "toFixed2 x =
     (let sign = (if x < 0 then ''-'' else '''');
          n = nat \<lfloor>\<bar>x\<bar> * 100 + 1 / 2\<rfloor>;
          m = digits n;
          padded = replicate (3 - length m) (CHR ''0'') @ m
      in sign @ take (length padded - 2) padded @ ''.'' @ drop (length padded - 2) padded)"

datatype price_trend = price_rising | price_falling | price_stable

record market_prices =
  crop :: string
  currentPrice :: "real option"
  weeklyChange :: "string option"
  monthlyChange :: "string option"
  priceTrend :: "price_trend option"   \<comment> \<open>the field \<^verbatim>\<open>trend\<close>\<close>
  marketArea :: string
  priceForecast :: "string option"
  marketingTips :: "string list option"

text \<open>
  The percent change against an earlier price, as a signed string. The test
  \<^verbatim>\<open>if (weekAgoPrice)\<close> fails when no point was found and also when the price found is zero.
\<close>

definition percent_change :: "real \<Rightarrow> real option \<Rightarrow> string option" where
  "percent_change current agoPrice =
     (case agoPrice of
        None \<Rightarrow> None
      | Some ago \<Rightarrow>
          if ago = 0 then None
          else
            let changePct = ((current - ago) / ago) * 100;
                sign = (if changePct \<ge> 0 then ''+'' else '''')
            in Some (sign @ toFixed2 changePct @ ''%''))"

definition classify_trend :: "TimeSeriesPoint list \<Rightarrow> price_trend option" where
  "classify_trend priceData =
     (if length priceData \<ge> 7 then
        let recentPrices = map pvalue (take 7 priceData);
            avgRecentPrice = reduce_sum recentPrices / real (length recentPrices);
            olderPrices = map pvalue (drop (length priceData - 7) priceData);
            avgOlderPrice = reduce_sum olderPrices / real (length olderPrices);
            changePct = ((avgRecentPrice - avgOlderPrice) / avgOlderPrice) * 100
        in if avgOlderPrice = 0 then
             \<comment> \<open>division by zero: \<open>changePct\<close> is \<open>Infinity\<close>, \<open>-Infinity\<close> or \<open>NaN\<close>\<close>
             Some (if avgRecentPrice > 0 then price_rising
                   else if avgRecentPrice < 0 then price_falling
                   else price_stable)
           else
             Some (if changePct > 3 then price_rising
                   else if changePct < - 3 then price_falling
                   else price_stable)
      else None)"

definition forecast_text :: "price_trend option \<Rightarrow> string option" where
  "forecast_text t =
     (case t of
        None \<Rightarrow> None
      | Some tr \<Rightarrow>
          Some (''Based on current trends, prices are expected to change by '' @
                (if tr = price_rising then ''+5 to +10%''
                 else if tr = price_falling then ''-5 to -10%''
                 else [char_of (194 :: nat), char_of (177 :: nat)] @ ''2%'') @
                '' over the next 2 weeks.''))"

definition tips :: "price_trend option \<Rightarrow> string list" where
  "tips t =
     (if t = Some price_rising then
        [''Consider phased selling to benefit from potential further price increases.'',
         ''Monitor daily market rates before selling large quantities.'',
         ''Explore nearby markets for better price options.'']
      else if t = Some price_falling then
        [''Consider selling soon if storage costs are high.'',
         ''Explore value-added processing options to increase returns.'',
         ''Check government procurement programs for minimum support price options.'']
      else
        [''Prices are stable. Good time for planned, gradual marketing.'',
         ''Compare prices across different markets before selling.'',
         ''Consider quality grading to fetch premium prices.''])"

text \<open>The metric of a crop's prices; the market area is appended unless it is \<open>all\<close>.\<close>

definition fullMetricId :: "string \<Rightarrow> string \<Rightarrow> string" where
  "fullMetricId cropName area =
     (let cropId = slug cropName;
          mid = ''market:price:'' @ cropId
      in if area \<noteq> ''all'' then mid @ '':'' @ slug area else mid)"

definition getMarketPrices ::
  "ts_item table \<Rightarrow> int \<Rightarrow> string \<Rightarrow> int option \<Rightarrow> string option \<Rightarrow> error + market_prices" where
  "getMarketPrices db now cropName daysArg marketAreaArg =
     (let days = (case daysArg of None \<Rightarrow> 30 | Some d \<Rightarrow> d);
          area = (case marketAreaArg of None \<Rightarrow> ''all'' | Some a \<Rightarrow> a)
      in case getTimeSeriesData db (fullMetricId cropName area) (now - days * dayMs) now of
           Inl e \<Rightarrow> Inl e
         | Inr queried \<Rightarrow>
             if length queried = 0 then
               Inr \<lparr> crop = cropName, currentPrice = None, weeklyChange = None,
                     monthlyChange = None, priceTrend = None, marketArea = area,
                     priceForecast = None, marketingTips = None \<rparr>
             else
               let priceData = sort_key (\<lambda>point. - timestamp point) queried;
                   current = pvalue (hd priceData);
                   oneWeekAgo = now - 7 * dayMs;
                   weekAgoPrice = map_option pvalue (find (\<lambda>point. timestamp point \<le> oneWeekAgo) priceData);
                   oneMonthAgo = now - 30 * dayMs;
                   monthAgoPrice = map_option pvalue (find (\<lambda>point. timestamp point \<le> oneMonthAgo) priceData);
                   tr = classify_trend priceData
               in Inr \<lparr> crop = cropName, currentPrice = Some current,
                        weeklyChange = percent_change current weekAgoPrice,
                        monthlyChange = percent_change current monthAgoPrice,
                        priceTrend = tr, marketArea = area,
                        priceForecast = forecast_text tr,
                        marketingTips = Some (tips tr) \<rparr>)"

section \<open>The knowledge graph\<close>

datatype RelationshipType =
  GROWS_IN | SUSCEPTIBLE_TO | AFFECTED_BY | TREATED_WITH | GROWN_DURING | PRICE_AFFECTED_BY
| SUITABLE_FOR | TOLERANT_TO | HAS_PEST | PREVENTS

fun relationshipTypeName :: "RelationshipType \<Rightarrow> string" where
  "relationshipTypeName GROWS_IN = ''grows_in''"
| "relationshipTypeName SUSCEPTIBLE_TO = ''susceptible_to''"
| "relationshipTypeName AFFECTED_BY = ''affected_by''"
| "relationshipTypeName TREATED_WITH = ''treated_with''"
| "relationshipTypeName GROWN_DURING = ''grown_during''"
| "relationshipTypeName PRICE_AFFECTED_BY = ''price_affected_by''"
| "relationshipTypeName SUITABLE_FOR = ''suitable_for''"
| "relationshipTypeName TOLERANT_TO = ''tolerant_to''"
| "relationshipTypeName HAS_PEST = ''has_pest''"
| "relationshipTypeName PREVENTS = ''prevents''"

text \<open>The argument of \<open>createRelationship\<close>.\<close>

record Relationship =
  rel_nodeId :: string
  rel_relationshipType :: RelationshipType
  rel_targetNodeId :: string
  rel_properties :: "string option"
  rel_confidence :: "real option"
  rel_source :: "string option"

text \<open>
  An item of the graph table, whose partition key is \<open>nodeId\<close> and whose sort key is
  \<open>relationshipType\<close>. Nodes and relationships live in the same table and are told apart by
  \<open>entityType\<close>; \<open>nodeType\<close> and \<open>nodeName\<close> are the attributes \<^verbatim>\<open>type\<close> and \<^verbatim>\<open>name\<close> of a node.
\<close>

record kg_item =
  nodeId :: string
  relationshipType :: string
  entityType :: string
  targetNodeId :: string
  nodeType :: string
  nodeName :: string
  properties :: "string option"
  itemSource :: string
  confidence :: real

text \<open>
  The node that \<open>getNode\<close> returns; \<open>n_type\<close> is the stored string, cast to the entity type
  without a check. A node is read under the sort key \<^verbatim>\<open>NODE\<close>.
\<close>

record KnowledgeNode =
  n_nodeId :: string
  n_type :: string
  n_name :: string
  n_properties :: "string option"
  n_source :: string
  n_confidence :: real

text \<open>A put request replaces the item stored under the same key, or adds the item.\<close>

definition put_item :: "kg_item \<Rightarrow> kg_item list \<Rightarrow> kg_item list" where
  "put_item item items =
     filter (\<lambda>i. (nodeId i, relationshipType i) \<noteq> (nodeId item, relationshipType item)) items @ [item]"

text \<open>\<^verbatim>\<open>relationship.source || 'manual'\<close> and \<^verbatim>\<open>relationship.confidence || 1.0\<close>\<close>

definition source_or_manual :: "string option \<Rightarrow> string" where
  "source_or_manual s = (case s of None \<Rightarrow> ''manual'' | Some v \<Rightarrow> if v = [] then ''manual'' else v)"

definition confidence_or_one :: "real option \<Rightarrow> real" where
  "confidence_or_one c = (case c of None \<Rightarrow> 1 | Some v \<Rightarrow> if v = 0 then 1 else v)"

definition forward_item :: "Relationship \<Rightarrow> kg_item" where
  "forward_item r =
     \<lparr> nodeId = rel_nodeId r,
       relationshipType = relationshipTypeName (rel_relationshipType r),
       entityType = ''RELATIONSHIP'',
       targetNodeId = rel_targetNodeId r,
       nodeType = [], nodeName = [],
       properties = rel_properties r,
       itemSource = source_or_manual (rel_source r),
       confidence = confidence_or_one (rel_confidence r) \<rparr>"

definition reverse_item :: "Relationship \<Rightarrow> kg_item" where
  "reverse_item r =
     \<lparr> nodeId = rel_targetNodeId r,
       relationshipType = ''reverse:'' @ relationshipTypeName (rel_relationshipType r),
       entityType = ''RELATIONSHIP'',
       targetNodeId = rel_nodeId r,
       nodeType = [], nodeName = [],
       properties = rel_properties r,
       itemSource = source_or_manual (rel_source r),
       confidence = confidence_or_one (rel_confidence r) \<rparr>"

definition createRelationship :: "kg_item table \<Rightarrow> Relationship \<Rightarrow> error + kg_item table" where
  "createRelationship db r =
     (if \<not> reachable db then Inl ServiceError
      else Inr (db\<lparr> rows := put_item (reverse_item r) (put_item (forward_item r) (rows db)) \<rparr>))"

definition getNode :: "kg_item table \<Rightarrow> string \<Rightarrow> error + KnowledgeNode option" where
  "getNode db nid =
     (if \<not> reachable db then Inl ServiceError
      else
        case find (\<lambda>i. nodeId i = nid \<and> relationshipType i = ''NODE'') (rows db) of
          None \<Rightarrow> Inr None
        | Some item \<Rightarrow>
            Inr (Some \<lparr> n_nodeId = nodeId item, n_type = nodeType item, n_name = nodeName item,
                        n_properties = properties item, n_source = itemSource item,
                        n_confidence = confidence item \<rparr>))"

definition getRelatedEntities ::
  "kg_item table \<Rightarrow> string \<Rightarrow> RelationshipType \<Rightarrow> bool \<Rightarrow> error + string list" where
  "getRelatedEntities db nid rt reverse =
     (let actualRelationshipType =
            (if reverse then ''reverse:'' @ relationshipTypeName rt else relationshipTypeName rt)
      in if \<not> reachable db then Inl ServiceError
         else Inr (map targetNodeId
                     (filter (\<lambda>i. entityType i = ''RELATIONSHIP'')
                        (filter (\<lambda>i. nodeId i = nid \<and> relationshipType i = actualRelationshipType)
                           (rows db)))))"

subsection \<open>Doubles\<close>

text \<open>
  A suitability score is a JavaScript number built by additions, so it is an IEEE 754 double
  and every addition rounds. A double is kept as a mantissa \<open>m\<close> and an exponent \<open>e\<close> and stands
  for \<open>m * 2\<^sup>e\<close>; zero has mantissa and exponent zero, every other double has
  \<open>2\<^sup>5\<^sup>2 \<le> |m| < 2\<^sup>5\<^sup>3\<close>, so two doubles are equal exactly when their values are. Magnitudes
  stay far from overflow and from the subnormal range, which are left out.
\<close>

datatype double = Double (mantissa: int) (exponent: int)

definition dval :: "double \<Rightarrow> real" where
  "dval d =
     (if 0 \<le> exponent d then real_of_int (mantissa d) * 2 ^ nat (exponent d)
      else real_of_int (mantissa d) / 2 ^ nat (- exponent d))"

text \<open>The number of binary digits of a positive integer.\<close>

function bits :: "int \<Rightarrow> nat" where
  "bits n = (if n \<le> 0 then 0 else Suc (bits (n div 2)))"
  by pat_completeness auto
termination
  by (relation "measure nat") auto

declare bits.simps [simp del]

text \<open>
  The double nearest to the exact value \<open>m * 2\<^sup>e\<close>, ties to the even mantissa (the rounding of
  every arithmetic operation on doubles).
\<close>

definition round_double :: "int \<Rightarrow> int \<Rightarrow> double" where
  "round_double m e =
     (if m = 0 then Double 0 0
      else
        let n = bits \<bar>m\<bar>
        in if n \<le> 53 then Double (m * 2 ^ (53 - n)) (e - int (53 - n))
           else
             let k = n - 53;
                 q = \<bar>m\<bar> div 2 ^ k;
                 r = \<bar>m\<bar> mod 2 ^ k;
                 half = 2 ^ (k - 1);
                 q' = (if r > half \<or> (r = half \<and> odd q) then q + 1 else q)
             in if q' = 2 ^ 53 then Double (sgn m * 2 ^ 52) (e + int k + 1)
                else Double (sgn m * q') (e + int k))"

text \<open>\<^verbatim>\<open>x + y\<close> on doubles: the exact sum, rounded.\<close>

definition dadd :: "double \<Rightarrow> double \<Rightarrow> double" where
  "dadd x y =
     (let e = min (exponent x) (exponent y)
      in round_double (mantissa x * 2 ^ nat (exponent x - e) + mantissa y * 2 ^ nat (exponent y - e)) e)"

text \<open>
  The value of a numeric literal that denotes the fraction \<open>p / q\<close> with \<open>q > 0\<close> (\<open>0.4\<close> is
  \<open>4 / 10\<close>): the double nearest to it. The quotient is computed with more than two digits to
  spare, and one more digit tells whether anything was cut off, so that the single rounding is
  the exact one.
\<close>

definition literal :: "int \<Rightarrow> int \<Rightarrow> double" where
  "literal p q =
     (let s = 55 + bits q;
          scaled = \<bar>p\<bar> * 2 ^ s;
          quotient = scaled div q;
          sticky = (if scaled mod q = 0 then 0 else 1)
      in round_double (sgn p * (2 * quotient + sticky)) (- int s - 1))"

subsection \<open>Crop recommendation\<close>

record crop_detail =
  cropId :: string
  cropName :: string
  suitabilityScore :: double
  reasonsForRecommendation :: "string list"

text \<open>The elements of \<^verbatim>\<open>new Set(xs)\<close> in iteration order: each value once, at its first place.\<close>

definition set_order :: "'a list \<Rightarrow> 'a list" where
  "set_order xs = foldl (\<lambda>seen x. if x \<in> set seen then seen else seen @ [x]) [] xs"

text \<open>Score and reasons of one candidate: the body of the loop after the node was found.\<close>

definition score_crop ::
  "string \<Rightarrow> string \<Rightarrow> string \<Rightarrow> string list \<Rightarrow> string list \<Rightarrow> string list \<Rightarrow> string \<Rightarrow> double \<times> string list" where
  "score_crop districtName soilType season locationCropIds seasonCropIds soilCropIds cid =
     (let s0 = (literal 0 1, [] :: string list);
          s1 = (if cid \<in> set locationCropIds
                then (dadd (fst s0) (literal 4 10), snd s0 @ [''Suitable for '' @ districtName @ '' region''])
                else s0);
          s2 = (if cid \<in> set seasonCropIds
                then (dadd (fst s1) (literal 4 10), snd s1 @ [''Ideal for '' @ season @ '' season''])
                else s1);
          s3 = (if cid \<in> set soilCropIds
                then (dadd (fst s2) (literal 2 10), snd s2 @ [''Well-suited for '' @ soilType @ '' soil''])
                else s2)
      in s3)"

text \<open>
  The loop over the candidates. The test \<^verbatim>\<open>suitabilityScore > 0\<close> compares the value of the
  double.
\<close>

fun collect_crops ::
  "kg_item table \<Rightarrow> (string \<Rightarrow> double \<times> string list) \<Rightarrow> string list \<Rightarrow> error + crop_detail list" where
  "collect_crops db score [] = Inr []"
| "collect_crops db score (cid # rest) =
     (case getNode db cid of
        Inl e \<Rightarrow> Inl e
      | Inr None \<Rightarrow> collect_crops db score rest
      | Inr (Some node) \<Rightarrow>
          (case collect_crops db score rest of
             Inl e \<Rightarrow> Inl e
           | Inr details \<Rightarrow>
               if dval (fst (score cid)) > 0 then
                 Inr (\<lparr> cropId = n_nodeId node, cropName = n_name node,
                        suitabilityScore = fst (score cid),
                        reasonsForRecommendation = snd (score cid) \<rparr> # details)
               else Inr details))"

definition default_crops :: "crop_detail list" where
  "default_crops =
     [\<lparr> cropId = ''crop:wheat'', cropName = ''Wheat'', suitabilityScore = literal 9 10,
        reasonsForRecommendation = [''Common crop for most regions''] \<rparr>,
      \<lparr> cropId = ''crop:rice'', cropName = ''Rice'', suitabilityScore = literal 8 10,
        reasonsForRecommendation = [''Staple crop in many regions''] \<rparr>,
      \<lparr> cropId = ''crop:maize'', cropName = ''Maize'', suitabilityScore = literal 7 10,
        reasonsForRecommendation = [''Versatile crop for various conditions''] \<rparr>]"

text \<open>The three traversals of \<open>getRecommendedCrops\<close>.\<close>

definition crop_candidates ::
  "kg_item table \<Rightarrow> string \<Rightarrow> string \<Rightarrow> string \<Rightarrow> error + (string list \<times> string list \<times> string list)" where
  "crop_candidates db districtName soilType season =
     (case getRelatedEntities db (''location:'' @ slug districtName) SUITABLE_FOR False of
        Inl e \<Rightarrow> Inl e
      | Inr locationCropIds \<Rightarrow>
     (case getRelatedEntities db (''season:'' @ slug season) GROWN_DURING True of
        Inl e \<Rightarrow> Inl e
      | Inr seasonCropIds \<Rightarrow>
     (case getRelatedEntities db (''soil:'' @ slug soilType) SUITABLE_FOR False of
        Inl e \<Rightarrow> Inl e
      | Inr soilCropIds \<Rightarrow> Inr (locationCropIds, seasonCropIds, soilCropIds))))"

text \<open>
  The try block of \<open>getRecommendedCrops\<close>. The comparator of the final sort is the rounded
  difference \<^verbatim>\<open>b.suitabilityScore - a.suitabilityScore\<close>, whose sign is the sign of the exact
  difference, so the stable sort orders by descending value.
\<close>

definition recommend_try ::
  "kg_item table \<Rightarrow> string \<Rightarrow> string \<Rightarrow> string \<Rightarrow> error + crop_detail list" where
  "recommend_try db districtName soilType season =
     (case crop_candidates db districtName soilType season of
        Inl e \<Rightarrow> Inl e
      | Inr (locationCropIds, seasonCropIds, soilCropIds) \<Rightarrow>
          let allCropIds = set_order (locationCropIds @ seasonCropIds @ soilCropIds)
          in (case collect_crops db
                     (score_crop districtName soilType season locationCropIds seasonCropIds soilCropIds)
                     allCropIds of
                Inl e \<Rightarrow> Inl e
              | Inr cropDetails \<Rightarrow> Inr (sort_key (\<lambda>d. - dval (suitabilityScore d)) cropDetails)))"

text \<open>\<open>getRecommendedCrops\<close>: the catch block turns every error into the default crops.\<close>

definition getRecommendedCrops ::
  "kg_item table \<Rightarrow> string \<Rightarrow> string \<Rightarrow> string \<Rightarrow> crop_detail list" where
  "getRecommendedCrops db districtName soilType season =
     (case recommend_try db districtName soilType season of
        Inl e \<Rightarrow> default_crops
      | Inr cropDetails \<Rightarrow> cropDetails)"

section \<open>The vector store\<close>

record VectorItem =
  itemId :: string                         \<comment> \<open>the field \<^verbatim>\<open>id\<close>\<close>
  vector :: "real list"
  itemText :: string                       \<comment> \<open>the field \<^verbatim>\<open>text\<close>\<close>
  itemMetadata :: "(string \<times> string) list"   \<comment> \<open>the field \<^verbatim>\<open>metadata\<close>, keys with their values\<close>


definition cosineSimilarity :: "real list \<Rightarrow> real list \<Rightarrow> error + real" where
  "cosineSimilarity a b =
     (if length a \<noteq> length b then Inl (Error ''Vectors must have the same dimensions'')
      else
        let dotProduct = foldl (\<lambda>acc i. acc + a ! i * b ! i) 0 [0..<length a];
            normA = sqrt (foldl (\<lambda>acc i. acc + a ! i * a ! i) 0 [0..<length a]);
            normB = sqrt (foldl (\<lambda>acc i. acc + b ! i * b ! i) 0 [0..<length a])
        in if normA = 0 \<or> normB = 0 then Inr 0
           else Inr (dotProduct / (normA * normB)))"

text \<open>The similarity of an item to a query of the item's dimension.\<close>

definition similarity_of :: "real list \<Rightarrow> 'a VectorItem_scheme \<Rightarrow> real" where
  "similarity_of queryVector item =
     (case cosineSimilarity queryVector (vector item) of Inl e \<Rightarrow> 0 | Inr s \<Rightarrow> s)"






section \<open>Dates\<close>

text \<open>
  \<^verbatim>\<open>new Date(t).toISOString().split('T')[0]\<close> for the years 0000 to 9999: the civil date of the
  day that holds the millisecond \<open>t\<close>, written \<open>YYYY-MM-DD\<close>. The functions above take the
  formatter as a parameter; this one instantiates it.
\<close>

definition civil_from_days :: "int \<Rightarrow> int \<times> int \<times> int" where
  "civil_from_days z0 =
     (let z = z0 + 719468;
          era = z div 146097;
          doe = z - era * 146097;
          yoe = (doe - doe div 1460 + doe div 36524 - doe div 146096) div 365;
          y = yoe + era * 400;
          doy = doe - (365 * yoe + yoe div 4 - yoe div 100);
          mp = (5 * doy + 2) div 153;
          d = doy - (153 * mp + 2) div 5 + 1;
          m = (if mp < 10 then mp + 3 else mp - 9)
      in (if m \<le> 2 then y + 1 else y, m, d))"

definition pad :: "nat \<Rightarrow> nat \<Rightarrow> string" where
  "pad w n = replicate (w - length (digits n)) (CHR ''0'') @ digits n"

definition isoDate :: "int \<Rightarrow> string" where
  "isoDate t =
     (case civil_from_days (t div dayMs) of
        (y, m, d) \<Rightarrow> pad 4 (nat y) @ ''-'' @ pad 2 (nat m) @ ''-'' @ pad 2 (nat d))"

section \<open>Example data\<close>

definition frost_point :: ts_item where
  "frost_point =
     \<lparr> metricId = ''weather:temperature:low:leh'', timestamp = 1700000000000, pvalue = - 5,
       location = None, source = ''imd'', unit = ''celsius'', metadata = None,
       expiryTime = 1731536000 \<rparr>"

definition frost_table :: "ts_item table" where
  "frost_table = \<lparr> reachable = True, rows = [frost_point] \<rparr>"

definition mk_point :: "string \<Rightarrow> int \<Rightarrow> real \<Rightarrow> ts_item" where
  "mk_point mid t v =
     \<lparr> metricId = mid, timestamp = t, pvalue = v, location = None, source = ''agmarknet'',
       unit = ''INR/quintal'', metadata = None, expiryTime = 1763072000 \<rparr>"

definition small_table :: "ts_item table" where
  "small_table =
     \<lparr> reachable = True,
       rows = [mk_point ''m'' 10 1, mk_point ''other'' 20 7, mk_point ''m'' 20 2, mk_point ''m'' 30 3] \<rparr>"

definition default_day :: "string \<Rightarrow> forecast_day" where
  "default_day d =
     \<lparr> date = d, highTemp = 25, lowTemp = 15, rainfall = 0, humidity = 50, windSpeed = 5 \<rparr>"

definition pune_forecast :: weather_forecast where
  "pune_forecast =
     \<lparr> district = ''Pune'',
       forecast = [default_day ''2023-11-14'', default_day ''2023-11-15'', default_day ''2023-11-16''],
       summary = \<lparr> temperature = None, rainProbability = 0, agriculturalImplications = [] \<rparr> \<rparr>"

text \<open>Seven wheat prices, 28 hours apart, the oldest one week old and the newest current.\<close>

definition week_now :: int where
  "week_now = 1700000000000"

definition wheat_table :: "ts_item table" where
  "wheat_table =
     \<lparr> reachable = True,
       rows = [mk_point ''market:price:wheat'' (week_now - 6 * 100800000) 2120,
               mk_point ''market:price:wheat'' (week_now - 5 * 100800000) 2130,
               mk_point ''market:price:wheat'' (week_now - 4 * 100800000) 2140,
               mk_point ''market:price:wheat'' (week_now - 3 * 100800000) 2150,
               mk_point ''market:price:wheat'' (week_now - 2 * 100800000) 2170,
               mk_point ''market:price:wheat'' (week_now - 1 * 100800000) 2190,
               mk_point ''market:price:wheat'' week_now 2200] \<rparr>"

text \<open>A small graph: rice suits Pune and is grown during kharif, cotton suits black soil.\<close>

definition node_item :: "string \<Rightarrow> string \<Rightarrow> string \<Rightarrow> kg_item" where
  "node_item nid ty nm =
     \<lparr> nodeId = nid, relationshipType = ''NODE'', entityType = ''NODE'', targetNodeId = [],
       nodeType = ty, nodeName = nm, properties = None, itemSource = ''manual'', confidence = 1 \<rparr>"

definition rice_kharif :: Relationship where
  "rice_kharif =
     \<lparr> rel_nodeId = ''crop:rice'', rel_relationshipType = GROWN_DURING,
       rel_targetNodeId = ''season:kharif'', rel_properties = Some ''{}'',
       rel_confidence = Some 0.9, rel_source = None \<rparr>"

definition pune_rice :: Relationship where
  "pune_rice =
     \<lparr> rel_nodeId = ''location:pune'', rel_relationshipType = SUITABLE_FOR,
       rel_targetNodeId = ''crop:rice'', rel_properties = None,
       rel_confidence = None, rel_source = None \<rparr>"

definition black_cotton :: Relationship where
  "black_cotton =
     \<lparr> rel_nodeId = ''soil:black'', rel_relationshipType = SUITABLE_FOR,
       rel_targetNodeId = ''crop:cotton'', rel_properties = None,
       rel_confidence = None, rel_source = None \<rparr>"

definition crop_nodes :: "kg_item table" where
  "crop_nodes =
     \<lparr> reachable = True,
       rows = [node_item ''crop:rice'' ''crop'' ''Rice'', node_item ''crop:cotton'' ''crop'' ''Cotton''] \<rparr>"

definition demo_graph :: "kg_item table" where
  "demo_graph =
     \<lparr> reachable = True,
       rows = rows crop_nodes @
              [forward_item pune_rice, reverse_item pune_rice,
               forward_item rice_kharif, reverse_item rice_kharif,
               forward_item black_cotton, reverse_item black_cotton] \<rparr>"



text \<open>Another graph: rice suits Pune and black soil, and no season is recorded for it.\<close>

definition black_rice :: Relationship where
  "black_rice =
     \<lparr> rel_nodeId = ''soil:black'', rel_relationshipType = SUITABLE_FOR,
       rel_targetNodeId = ''crop:rice'', rel_properties = None,
       rel_confidence = None, rel_source = None \<rparr>"

definition mixed_graph :: "kg_item table" where
  "mixed_graph =
     \<lparr> reachable = True,
       rows = rows crop_nodes @
              [forward_item pune_rice, reverse_item pune_rice,
               forward_item black_rice, reverse_item black_rice] \<rparr>"

section \<open>Properties of the time series store\<close>

lemma reduce_sum_Nil [simp]: "reduce_sum [] = 0"
  by (simp add: reduce_sum_def)

lemma reduce_sum_single [simp]: "reduce_sum [x] = x"
  by (simp add: reduce_sum_def)

lemma query_between_empty:
  assumes "\<forall>item \<in> set items. metricId item = mid \<longrightarrow> \<not> (s \<le> timestamp item \<and> timestamp item \<le> e)"
  shows "query_between items mid s e = []"
proof -
  have "filter (\<lambda>item. metricId item = mid \<and> s \<le> timestamp item \<and> timestamp item \<le> e) items = []"
    using assms by (auto simp: filter_empty_conv)
  then show ?thesis by (simp add: query_between_def)
qed

subsection \<open>Statistics\<close>

text \<open>
  C7, as the code has it: when the table answers and the requested range of a metric holds no
  point, \<open>calculateTimeSeriesStatistics\<close> fails. It returns neither statistics nor defaults,
  and the error is not the service's: it is the generic error raised for missing data, whose
  message names the metric.
\<close>

theorem statistics_empty_range_fails:
  assumes "reachable db"
    and "\<forall>item \<in> set (rows db). metricId item = mid \<longrightarrow>
           \<not> (startTime \<le> timestamp item \<and> timestamp item \<le> range_end now endTime)"
  shows "calculateTimeSeriesStatistics db now mid startTime endTime = Inl (Error (no_data_message mid))"
  using assms(1) query_between_empty [OF assms(2)]
  by (simp add: calculateTimeSeriesStatistics_def getTimeSeriesData_def)

theorem statistics_empty_range_fails_witness:
  "calculateTimeSeriesStatistics frost_table 1700000500000 ''weather:temperature:low:leh''
     1700000000001 None
   = Inl (Error ''No data found for metric weather:temperature:low:leh in the specified time range'')"
  using statistics_empty_range_fails [of frost_table "''weather:temperature:low:leh''"
      1700000000001 1700000500000 None]
  by (simp add: frost_table_def frost_point_def range_end_def no_data_message_def)

text \<open>
  The error raised on an empty range is an object of the class \<^verbatim>\<open>Error\<close>: its name is not that of
  a type of its own for missing data.
\<close>

theorem statistics_empty_range_error_is_generic:
  "calculateTimeSeriesStatistics frost_table 1700000500000 ''weather:temperature:low:leh''
     1700000000001 None
   = Inl (Error ''No data found for metric weather:temperature:low:leh in the specified time range'')
   \<and> error_name (Error ''No data found for metric weather:temperature:low:leh in the specified time range'')
       \<noteq> Some ''NotFoundError''"
  by (simp add: calculateTimeSeriesStatistics_def getTimeSeriesData_def query_between_def
      range_end_def frost_table_def frost_point_def no_data_message_def)

text \<open>
  The statistics of a single point: the deviation is zero and the slope is guarded to zero, but
  the threshold \<open>0.05 * avg\<close> is negative for a negative value, and then the zero slope lies
  above it.
\<close>

lemma single_point_statistics:
  "series_statistics [p] =
     \<lparr> s_min = pvalue p, s_max = pvalue p, s_avg = pvalue p, s_count = 1, stdDev = 0,
       s_trend = (if pvalue p < 0 then increasing else stable) \<rparr>"
  by (simp add: series_statistics_def Let_def Math_min_def Math_max_def)

text \<open>
  C6: a range holding the single point of value \<open>-5\<close> has deviation zero, yet its trend is
  reported as increasing, not as stable.
\<close>

theorem statistics_single_negative_point:
  "calculateTimeSeriesStatistics frost_table 1700000500000 ''weather:temperature:low:leh''
     1699999000000 None
   = Inr \<lparr> s_min = - 5, s_max = - 5, s_avg = - 5, s_count = 1, stdDev = 0, s_trend = increasing \<rparr>"
  by (simp add: calculateTimeSeriesStatistics_def getTimeSeriesData_def query_between_def
      range_end_def frost_table_def frost_point_def TimeSeriesPoint.truncate_def
      single_point_statistics)

subsection \<open>Deletion\<close>

lemma foldl_delete_item:
  "foldl (\<lambda>items item. delete_item (metricId item, timestamp item) items) rs found =
     filter (\<lambda>r. item_key r \<notin> item_key ` set found) rs"
proof (induction found arbitrary: rs)
  case Nil
  then show ?case by simp
next
  case (Cons f found)
  have "foldl (\<lambda>items item. delete_item (metricId item, timestamp item) items) rs (f # found)
        = foldl (\<lambda>items item. delete_item (metricId item, timestamp item) items)
            (delete_item (metricId f, timestamp f) rs) found"
    by simp
  also have "\<dots> = filter (\<lambda>r. item_key r \<notin> item_key ` set found) (delete_item (metricId f, timestamp f) rs)"
    by (rule Cons.IH)
  also have "\<dots> = filter (\<lambda>r. item_key r \<notin> item_key ` set (f # found)) rs"
    unfolding delete_item_def filter_filter
    by (rule filter_cong [OF refl]) (auto simp: item_key_def)
  finally show ?case .
qed

lemma delete_found_by_key:
  assumes key: "\<And>a b. item_key a = item_key b \<Longrightarrow> P a = P b"
  shows "filter (\<lambda>r. item_key r \<notin> item_key ` set (sort_key timestamp (filter P rs))) rs
         = filter (\<lambda>r. \<not> P r) rs"
proof (rule filter_cong [OF refl])
  fix r assume r: "r \<in> set rs"
  show "(item_key r \<notin> item_key ` set (sort_key timestamp (filter P rs))) = (\<not> P r)"
  proof
    assume notin: "item_key r \<notin> item_key ` set (sort_key timestamp (filter P rs))"
    show "\<not> P r"
    proof
      assume "P r"
      with r have "r \<in> set (sort_key timestamp (filter P rs))" by simp
      with notin show False by blast
    qed
  next
    assume np: "\<not> P r"
    show "item_key r \<notin> item_key ` set (sort_key timestamp (filter P rs))"
    proof
      assume "item_key r \<in> item_key ` set (sort_key timestamp (filter P rs))"
      then obtain x where "P x" "item_key r = item_key x" by auto
      with key [of r x] np show False by simp
    qed
  qed
qed

lemma delete_query_cases:
  "delete_query items mid startTime endTime =
     sort_key timestamp (filter (\<lambda>item. metricId item = mid \<and>
        (case (startTime, endTime) of
           (Some s, Some e) \<Rightarrow> s \<noteq> 0 \<and> e \<noteq> 0 \<longrightarrow> s \<le> timestamp item \<and> timestamp item \<le> e
         | _ \<Rightarrow> True)) items)"
proof (cases startTime)
  case None
  then show ?thesis by (simp add: delete_query_def)
next
  case (Some s)
  note s = this
  show ?thesis
  proof (cases endTime)
    case None
    with s show ?thesis by (simp add: delete_query_def)
  next
    case (Some e)
    with s show ?thesis by (simp add: delete_query_def query_between_def)
  qed
qed

lemma sort_key_eq_Nil [simp]: "(sort_key f xs = []) = (xs = [])"
proof -
  have "(length (sort_key f xs) = 0) = (length xs = 0)" by simp
  then show ?thesis unfolding length_0_conv .
qed

lemma deleteTimeSeriesData_result:
  assumes "reachable db"
  shows "deleteTimeSeriesData db mid startTime endTime =
     Inr (db\<lparr> rows := filter (\<lambda>item. \<not> (metricId item = mid \<and>
        (case (startTime, endTime) of
           (Some s, Some e) \<Rightarrow> s \<noteq> 0 \<and> e \<noteq> 0 \<longrightarrow> s \<le> timestamp item \<and> timestamp item \<le> e
         | _ \<Rightarrow> True))) (rows db) \<rparr>)"
proof -
  define P where "P = (\<lambda>item :: ts_item. metricId item = mid \<and>
        (case (startTime, endTime) of
           (Some s, Some e) \<Rightarrow> s \<noteq> 0 \<and> e \<noteq> 0 \<longrightarrow> s \<le> timestamp item \<and> timestamp item \<le> e
         | _ \<Rightarrow> True))"
  have found: "delete_query (rows db) mid startTime endTime = sort_key timestamp (filter P (rows db))"
    unfolding P_def by (rule delete_query_cases)
  have key: "P a = P b" if "item_key a = item_key b" for a b
  proof -
    from that have m: "metricId a = metricId b" and t: "timestamp a = timestamp b"
      by (simp_all add: item_key_def)
    show ?thesis unfolding P_def m t by (rule refl)
  qed
  have del: "foldl (\<lambda>items item. delete_item (metricId item, timestamp item) items) (rows db)
               (sort_key timestamp (filter P (rows db))) = filter (\<lambda>r. \<not> P r) (rows db)"
    unfolding foldl_delete_item
    by (rule delete_found_by_key) (rule key)
  have goal: "deleteTimeSeriesData db mid startTime endTime = Inr (db\<lparr> rows := filter (\<lambda>r. \<not> P r) (rows db) \<rparr>)"
  proof (cases "filter P (rows db) = []")
    case True
    then have "\<forall>r \<in> set (rows db). \<not> P r"
      unfolding filter_empty_conv by blast
    then have same: "filter (\<lambda>r. \<not> P r) (rows db) = rows db"
      unfolding filter_id_conv by blast
    have "delete_query (rows db) mid startTime endTime = []"
      unfolding found True by simp
    then have "deleteTimeSeriesData db mid startTime endTime = Inr db"
      using assms by (simp add: deleteTimeSeriesData_def)
    then show ?thesis unfolding same by simp
  next
    case False
    then show ?thesis
      using assms by (simp add: deleteTimeSeriesData_def Let_def found del)
  qed
  show ?thesis using goal unfolding P_def .
qed

text \<open>
  C10: when a bound is missing or is zero, \<open>deleteTimeSeriesData\<close> removes every point of the
  metric, whatever the other bound is; when both bounds are given and neither is zero, it
  removes exactly the points of the metric whose timestamp lies between them.
\<close>

theorem delete_restricted_only_by_two_nonzero_bounds:
  assumes "reachable db"
  shows "(startTime = None \<or> endTime = None \<or> startTime = Some 0 \<or> endTime = Some 0 \<longrightarrow>
            deleteTimeSeriesData db mid startTime endTime =
              Inr (db\<lparr> rows := filter (\<lambda>item. metricId item \<noteq> mid) (rows db) \<rparr>))
       \<and> (\<forall>s e. startTime = Some s \<and> endTime = Some e \<and> s \<noteq> 0 \<and> e \<noteq> 0 \<longrightarrow>
            deleteTimeSeriesData db mid startTime endTime =
              Inr (db\<lparr> rows := filter (\<lambda>item. \<not> (metricId item = mid \<and> s \<le> timestamp item \<and> timestamp item \<le> e))
                                  (rows db) \<rparr>))"
proof (intro conjI impI allI)
  assume "startTime = None \<or> endTime = None \<or> startTime = Some 0 \<or> endTime = Some 0"
  then have "(\<lambda>item :: ts_item. \<not> (metricId item = mid \<and>
        (case (startTime, endTime) of
           (Some s, Some e) \<Rightarrow> s \<noteq> 0 \<and> e \<noteq> 0 \<longrightarrow> s \<le> timestamp item \<and> timestamp item \<le> e
         | _ \<Rightarrow> True))) = (\<lambda>item. metricId item \<noteq> mid)"
    by (auto split: option.splits)
  with deleteTimeSeriesData_result [OF assms, of mid startTime endTime]
  show "deleteTimeSeriesData db mid startTime endTime =
          Inr (db\<lparr> rows := filter (\<lambda>item. metricId item \<noteq> mid) (rows db) \<rparr>)"
    by simp
next
  fix s e
  assume "startTime = Some s \<and> endTime = Some e \<and> s \<noteq> 0 \<and> e \<noteq> 0"
  with deleteTimeSeriesData_result [OF assms, of mid startTime endTime]
  show "deleteTimeSeriesData db mid startTime endTime =
          Inr (db\<lparr> rows := filter (\<lambda>item. \<not> (metricId item = mid \<and> s \<le> timestamp item \<and> timestamp item \<le> e))
                              (rows db) \<rparr>)"
    by simp
qed

theorem delete_restricted_only_by_two_nonzero_bounds_witness:
  "deleteTimeSeriesData small_table ''m'' (Some 15) None =
     Inr \<lparr> reachable = True, rows = [mk_point ''other'' 20 7] \<rparr>
   \<and> deleteTimeSeriesData small_table ''m'' (Some 0) (Some 25) =
     Inr \<lparr> reachable = True, rows = [mk_point ''other'' 20 7] \<rparr>
   \<and> deleteTimeSeriesData small_table ''m'' (Some 15) (Some 25) =
     Inr \<lparr> reachable = True, rows = [mk_point ''m'' 10 1, mk_point ''other'' 20 7, mk_point ''m'' 30 3] \<rparr>"
  using delete_restricted_only_by_two_nonzero_bounds [where db = small_table and mid = "''m''" and startTime = "Some 15" and endTime = None]
    delete_restricted_only_by_two_nonzero_bounds [where db = small_table and mid = "''m''" and startTime = "Some 0" and endTime = "Some 25"]
    delete_restricted_only_by_two_nonzero_bounds [where db = small_table and mid = "''m''" and startTime = "Some 15" and endTime = "Some 25"]
  by (simp add: small_table_def mk_point_def)

subsection \<open>Aggregation\<close>

lemma group_values_push_group:
  "group_values (push_group k v groups) k' =
     (if k' = k then group_values groups k @ [v] else group_values groups k')"
  by (induction groups) (auto simp: group_values_def)

lemma map_fst_push_group:
  "map fst (push_group k v groups) =
     (if k \<in> fst ` set groups then map fst groups else map fst groups @ [k])"
  by (induction groups) (force simp: image_iff)+

lemma keys_push_group:
  "fst ` set (push_group k v groups) = insert k (fst ` set groups)"
proof -
  have "set (map fst (push_group k v groups)) = insert k (set (map fst groups))"
    unfolding map_fst_push_group by auto
  then show ?thesis by simp
qed

lemma distinct_push_group:
  "distinct (map fst groups) \<Longrightarrow> distinct (map fst (push_group k v groups))"
  unfolding map_fst_push_group by simp

lemma group_values_foldl:
  "group_values (foldl (\<lambda>groups point. push_group (key point) (pvalue point) groups) groups rawData) k =
     group_values groups k @ map pvalue (filter (\<lambda>point. key point = k) rawData)"
  by (induction rawData arbitrary: groups) (auto simp: group_values_push_group)

lemma keys_foldl:
  "fst ` set (foldl (\<lambda>groups point. push_group (key point) (pvalue point) groups) groups rawData) =
     fst ` set groups \<union> key ` set rawData"
  by (induction rawData arbitrary: groups) (simp_all add: keys_push_group)

lemma distinct_foldl:
  "distinct (map fst groups) \<Longrightarrow>
   distinct (map fst (foldl (\<lambda>groups point. push_group (key point) (pvalue point) groups) groups rawData))"
  by (induction rawData arbitrary: groups) (simp_all add: distinct_push_group)

lemma periodGroups_keys:
  "fst ` set (periodGroups p rawData) = (\<lambda>point. periodStart p (timestamp point)) ` set rawData"
  unfolding periodGroups_def keys_foldl by simp

lemma periodGroups_distinct: "distinct (map fst (periodGroups p rawData))"
  unfolding periodGroups_def by (rule distinct_foldl) simp

lemma periodGroups_values:
  assumes "(k, vs) \<in> set (periodGroups p rawData)"
  shows "vs = map pvalue (filter (\<lambda>point. periodStart p (timestamp point) = k) rawData)"
proof -
  from assms periodGroups_distinct have "map_of (periodGroups p rawData) k = Some vs"
    by (rule_tac map_of_is_SomeI)
  then have "group_values (periodGroups p rawData) k = vs"
    by (simp add: group_values_def)
  then show ?thesis
    unfolding periodGroups_def group_values_foldl by (simp add: group_values_def)
qed

lemma bucket_of_group [simp]:
  "b_timestamp (aggregate_group (k, vs)) = k" "b_count (aggregate_group (k, vs)) = length vs"
  by (simp_all add: aggregate_group_def)

lemma b_timestamp_aggregate_group: "map b_timestamp (map aggregate_group groups) = map fst groups"
  by (induction groups) auto

lemma periodStart_multiple: "p dvd periodStart p t"
  by (simp add: periodStart_def)

text \<open>
  Two or more points in the range: the buckets are keyed by the floored timestamps of the
  points, one bucket for each key that occurs, in ascending order, and each bucket counts the
  points of its key.
\<close>

lemma aggregated_buckets:
  assumes raw: "getTimeSeriesData db mid startTime (range_end now endTime) = Inr rawData"
    and many: "1 < length rawData"
    and p: "p = (case aggregationPeriodMs of None \<Rightarrow> dayMs | Some q \<Rightarrow> q)"
    and nonzero: "p \<noteq> 0"
  shows "\<exists>buckets.
      getAggregatedTimeSeriesData db now mid startTime endTime aggregationPeriodMs = Inr buckets
    \<and> sorted (map b_timestamp buckets) \<and> distinct (map b_timestamp buckets)
    \<and> set (map b_timestamp buckets) = (\<lambda>point. periodStart p (timestamp point)) ` set rawData
    \<and> (\<forall>b \<in> set buckets. p dvd b_timestamp b \<and> 0 < b_count b \<and>
          b_count b = length (filter (\<lambda>point. periodStart p (timestamp point) = b_timestamp b) rawData))"
proof -
  define groups where "groups = periodGroups p rawData"
  define buckets where "buckets = sort_key b_timestamp (map aggregate_group groups)"
  have res: "getAggregatedTimeSeriesData db now mid startTime endTime aggregationPeriodMs = Inr buckets"
    using raw many by (simp add: getAggregatedTimeSeriesData_def buckets_def groups_def p)
  have ts: "map b_timestamp (map aggregate_group groups) = map fst groups"
    by (rule b_timestamp_aggregate_group)
  have srt: "sorted (map b_timestamp buckets)"
    unfolding buckets_def by (rule sorted_sort_key)
  have "mset (map b_timestamp buckets) = mset (map b_timestamp (map aggregate_group groups))"
    unfolding buckets_def by (simp del: map_map)
  then have "mset (map b_timestamp buckets) = mset (map fst groups)"
    unfolding ts .
  then have dist: "distinct (map b_timestamp buckets)" and keys: "set (map b_timestamp buckets) = set (map fst groups)"
    using periodGroups_distinct [of p rawData] mset_eq_imp_distinct_iff mset_eq_setD
    unfolding groups_def by blast+
  have keys': "set (map b_timestamp buckets) = (\<lambda>point. periodStart p (timestamp point)) ` set rawData"
    unfolding keys groups_def using periodGroups_keys [of p rawData] by simp
  have cnt: "p dvd b_timestamp b \<and> 0 < b_count b \<and>
          b_count b = length (filter (\<lambda>point. periodStart p (timestamp point) = b_timestamp b) rawData)"
    if "b \<in> set buckets" for b
  proof -
    from that obtain k vs where g: "(k, vs) \<in> set groups" and b: "b = aggregate_group (k, vs)"
      unfolding buckets_def by auto
    from g have vs: "vs = map pvalue (filter (\<lambda>point. periodStart p (timestamp point) = k) rawData)"
      unfolding groups_def by (rule periodGroups_values)
    from g have "k \<in> fst ` set groups" by force
    then obtain x where x: "x \<in> set rawData" "k = periodStart p (timestamp x)"
      unfolding groups_def periodGroups_keys by blast
    then have "filter (\<lambda>point. periodStart p (timestamp point) = k) rawData \<noteq> []"
      by (auto simp: filter_empty_conv)
    with vs b x show ?thesis by (simp add: periodStart_multiple)
  qed
  from res srt dist keys' cnt show ?thesis by blast
qed

text \<open>
  C5: a range holding a single point takes the early return, and the bucket it yields carries
  the raw timestamp of the point, not the start of its period: with daily buckets the point of
  1700000000000 belongs to the period starting at 1699920000000.
\<close>

theorem aggregate_single_point_keeps_raw_timestamp:
  "getAggregatedTimeSeriesData frost_table 1700000500000 ''weather:temperature:low:leh''
     1699999000000 None None
   = Inr [\<lparr> b_timestamp = 1700000000000, b_min = - 5, b_max = - 5, b_avg = - 5, b_count = 1 \<rparr>]
   \<and> periodStart dayMs 1700000000000 = 1699920000000"
  by (simp add: getAggregatedTimeSeriesData_def getTimeSeriesData_def query_between_def
      range_end_def frost_table_def frost_point_def TimeSeriesPoint.truncate_def
      periodStart_def dayMs_def)

section \<open>Evaluation of strings and dates\<close>

lemma slug_Pune: "slug ''Pune'' = ''pune''"
  by code_simp

lemma isoDate_examples:
  "isoDate 1700000000000 = ''2023-11-14''"
  "isoDate (1700000000000 + dayMs) = ''2023-11-15''"
  "isoDate (1700000000000 + 2 * dayMs) = ''2023-11-16''"
  by code_simp+

lemma upt_0_3: "[0..<3] = [0, 1, 2]"
  by code_simp

section \<open>Properties of the weather forecast\<close>

lemma value_or_Nil [simp]: "value_or [] i d = d"
  by (simp add: value_or_def)

lemma build_forecast_no_data:
  "build_forecast formatDate now districtName days [] [] [] [] [] =
     \<lparr> district = districtName,
       forecast = map (\<lambda>i. default_day (formatDate (now + int i * dayMs))) [0..<nat days],
       summary = \<lparr> temperature = None, rainProbability = 0,
                   agriculturalImplications =
                     (if 7 \<le> days then [''Dry conditions expected. Plan for irrigation if available.'']
                      else []) \<rparr> \<rparr>"
  by (simp add: build_forecast_def temperature_implications_def rainfall_implications_def
      default_day_def)

lemma getTimeSeriesData_no_series:
  assumes "reachable db" and "\<forall>item \<in> set (rows db). metricId item \<noteq> mid"
  shows "getTimeSeriesData db mid startTime endTime = Inr []"
proof -
  from assms(2) have "query_between (rows db) mid startTime endTime = []"
    by (intro query_between_empty) simp
  with assms(1) show ?thesis by (simp add: getTimeSeriesData_def)
qed

text \<open>
  C2, as the code has it: when the table answers and holds no point of any of the five series
  of the district, the forecast has one entry for each of the \<open>days > 0\<close> days, every entry filled
  with the defaults 25, 15, 0, 50 and 5; there is no temperature summary and hence no
  temperature advisory: the advisory list is empty for fewer than seven days and holds only
  the dry-conditions advisory from seven days on.
\<close>

theorem forecast_without_data:
  assumes "reachable db"
    and "\<forall>item \<in> set (rows db). metricId item \<notin> set (weather_metric_ids districtName)"
    and "days = (case daysArg of None \<Rightarrow> 7 | Some d \<Rightarrow> d)"
    and "0 < days"
  shows "getWeatherForecast db formatDate now districtName daysArg =
     Inr \<lparr> district = districtName,
           forecast = map (\<lambda>i. default_day (formatDate (now + int i * dayMs))) [0..<nat days],
           summary = \<lparr> temperature = None, rainProbability = 0,
                       agriculturalImplications =
                         (if 7 \<le> days then [''Dry conditions expected. Plan for irrigation if available.'']
                          else []) \<rparr> \<rparr>"
proof -
  have none: "getTimeSeriesData db mid startTime endTime = Inr []"
    if "mid \<in> set (weather_metric_ids districtName)" for mid startTime endTime
    using assms(1) by (rule getTimeSeriesData_no_series) (use assms(2) that in blast)
  have "getTimeSeriesData db (''weather:temperature:high:'' @ slug districtName) s e = Inr []"
    "getTimeSeriesData db (''weather:temperature:low:'' @ slug districtName) s e = Inr []"
    "getTimeSeriesData db (''weather:rainfall:'' @ slug districtName) s e = Inr []"
    "getTimeSeriesData db (''weather:humidity:'' @ slug districtName) s e = Inr []"
    "getTimeSeriesData db (''weather:wind_speed:'' @ slug districtName) s e = Inr []" for s e
    by (rule none, simp add: weather_metric_ids_def)+
  then show ?thesis
    unfolding getWeatherForecast_def Let_def assms(3) [symmetric]
    by (simp add: build_forecast_no_data)
qed

theorem forecast_without_data_witness:
  "getWeatherForecast small_table isoDate 1700000000000 ''Pune'' (Some 3) = Inr pune_forecast
   \<and> length (forecast pune_forecast) = 3"
  using forecast_without_data [where db = small_table and districtName = "''Pune''"
      and daysArg = "Some 3" and days = 3 and formatDate = isoDate and now = 1700000000000]
  by (simp add: small_table_def mk_point_def weather_metric_ids_def slug_Pune pune_forecast_def
      isoDate_examples upt_0_3)

text \<open>
  The call \<open>weatherForecast("Pune", 3)\<close> on an empty table: three default days, and an advisory
  list that does not hold the favourable-temperature advisory.
\<close>

theorem pune_forecast_has_no_temperature_advisory:
  "getWeatherForecast \<lparr> reachable = True, rows = [] \<rparr> isoDate 1700000000000 ''Pune'' (Some 3)
     = Inr pune_forecast
   \<and> ''Temperature conditions are favorable for most crops.''
       \<notin> set (agriculturalImplications (summary pune_forecast))"
  by (simp add: getWeatherForecast_def getTimeSeriesData_def query_between_def
      build_forecast_no_data pune_forecast_def isoDate_examples upt_0_3)

section \<open>Properties of the market prices\<close>

lemma percent_change_example: "percent_change 2200 (Some 2120) = Some ''+3.77%''"
  by code_simp

lemma slug_Wheat: "slug ''Wheat'' = ''wheat''"
  by code_simp

lemma truncate_fields [simp]:
  "timestamp (TimeSeriesPoint.truncate item) = timestamp item"
  "pvalue (TimeSeriesPoint.truncate item) = pvalue item"
  "metricId (TimeSeriesPoint.truncate item) = metricId item"
  by (simp_all add: TimeSeriesPoint.truncate_def)

lemma week_series_newest_first:
  fixes p0 :: TimeSeriesPoint
  assumes "timestamp p0 < timestamp p1" "timestamp p1 < timestamp p2" "timestamp p2 < timestamp p3"
    "timestamp p3 < timestamp p4" "timestamp p4 < timestamp p5" "timestamp p5 < timestamp p6"
  shows "sort_key (\<lambda>point. - timestamp point) [p0, p1, p2, p3, p4, p5, p6] = [p6, p5, p4, p3, p2, p1, p0]"
  using assms by simp

lemma seven_points:
  assumes "map f xs = [a0, a1, a2, a3, a4, a5, a6]"
  obtains x0 x1 x2 x3 x4 x5 x6 where "xs = [x0, x1, x2, x3, x4, x5, x6]"
    and "f x0 = a0" "f x1 = a1" "f x2 = a2" "f x3 = a3" "f x4 = a4" "f x5 = a5" "f x6 = a6"
  using assms by (clarsimp simp: map_eq_Cons_conv)

text \<open>The prices of the week read from the newest one: the current price and the weekly change.\<close>

lemma week_series_change:
  fixes p0 :: TimeSeriesPoint
  assumes order: "timestamp p0 < timestamp p1" "timestamp p1 < timestamp p2" "timestamp p2 < timestamp p3"
    "timestamp p3 < timestamp p4" "timestamp p4 < timestamp p5" "timestamp p5 < timestamp p6"
    and week: "timestamp p0 \<le> oneWeekAgo" "oneWeekAgo < timestamp p1"
    and priceData: "priceData = sort_key (\<lambda>point. - timestamp point) [p0, p1, p2, p3, p4, p5, p6]"
  shows "hd priceData = p6"
    and "find (\<lambda>point. timestamp point \<le> oneWeekAgo) priceData = Some p0"
proof -
  have pd: "priceData = [p6, p5, p4, p3, p2, p1, p0]"
    unfolding priceData using order by (rule week_series_newest_first)
  show "hd priceData = p6" by (simp add: pd)
  show "find (\<lambda>point. timestamp point \<le> oneWeekAgo) priceData = Some p0"
    unfolding pd using order week by simp
qed

lemma find_None_newer:
  assumes "\<forall>point \<in> set xs. \<not> P point"
  shows "find P (sort_key f xs) = None"
  using assms by (simp add: find_None_iff)

text \<open>
  The baseline of a change: the first point at or before the bound, in newest-first order, is
  the most recent of the points at or before the bound.
\<close>

lemma baseline_most_recent:
  assumes "find (\<lambda>point. timestamp point \<le> bound) (sort_key (\<lambda>point. - timestamp point) xs) = Some p"
  shows "p \<in> set xs \<and> timestamp p \<le> bound
       \<and> (\<forall>x \<in> set xs. timestamp x \<le> bound \<longrightarrow> timestamp x \<le> timestamp p)"
proof -
  define ys where "ys = sort_key (\<lambda>point. - timestamp point) xs"
  have srt: "sorted (map (\<lambda>point. - timestamp point) ys)"
    unfolding ys_def by (rule sorted_sort_key)
  from assms obtain i where i: "i < length ys" "timestamp (ys ! i) \<le> bound" "p = ys ! i"
    and first: "\<forall>j < i. \<not> timestamp (ys ! j) \<le> bound"
    unfolding ys_def [symmetric] find_Some_iff by blast
  have older: "timestamp x \<le> timestamp p" if x: "x \<in> set xs" "timestamp x \<le> bound" for x
  proof -
    from x(1) have "x \<in> set ys" by (simp add: ys_def)
    then obtain j where j: "j < length ys" "x = ys ! j" by (auto simp: in_set_conv_nth)
    with first x(2) have "i \<le> j" by (metis not_le_imp_less)
    with srt j(1) have "map (\<lambda>point. - timestamp point) ys ! i \<le> map (\<lambda>point. - timestamp point) ys ! j"
      by (simp add: sorted_iff_nth_mono del: nth_map)
    with i(1) j(1) have "- timestamp (ys ! i) \<le> - timestamp (ys ! j)" by simp
    with i(3) j(2) show ?thesis by simp
  qed
  from i have "p \<in> set ys" by simp
  then have "p \<in> set xs" by (simp add: ys_def)
  with i older show ?thesis by blast
qed

text \<open>What \<open>getMarketPrices\<close> reports from a non-empty series, and from an empty one.\<close>

lemma getMarketPrices_report:
  assumes up: "reachable db"
    and days: "days = (case daysArg of None \<Rightarrow> 30 | Some d \<Rightarrow> d)"
    and area: "area = (case marketAreaArg of None \<Rightarrow> ''all'' | Some a \<Rightarrow> a)"
    and queried: "queried = query_between (rows db) (fullMetricId produce area) (now - days * dayMs) now"
    and priceData: "priceData = sort_key (\<lambda>point. - timestamp point) (map TimeSeriesPoint.truncate queried)"
  shows "\<exists>r. getMarketPrices db now produce daysArg marketAreaArg = Inr r
          \<and> currentPrice r = (if queried = [] then None else Some (pvalue (hd priceData)))
          \<and> weeklyChange r =
                (if queried = [] then None
                 else percent_change (pvalue (hd priceData))
                        (map_option pvalue (find (\<lambda>point. timestamp point \<le> now - 7 * dayMs) priceData)))"
proof -
  have data: "getTimeSeriesData db (fullMetricId produce area) (now - days * dayMs) now
                = Inr (map TimeSeriesPoint.truncate queried)"
    using up by (simp add: getTimeSeriesData_def queried)
  show ?thesis
    unfolding getMarketPrices_def Let_def days [symmetric] area [symmetric] data priceData
    by simp
qed

text \<open>
  C8: when the queried price series, read in time order, is 2120, 2130, 2140, 2150, 2170, 2190,
  2200 at strictly increasing times, its oldest point lies at or before \<open>now - 7d\<close> and the
  others after it, \<open>getMarketPrices\<close> reports the current price 2200 and the weekly change
  \<open>+3.77%\<close>, the baseline being the most recent point at or before \<open>now - 7d\<close>, of value 2120.
  When the queried series has no point at or before \<open>now - 7d\<close>, the weekly change is omitted.
\<close>

theorem weekly_change_of_week_series:
  assumes up: "reachable db"
    and days: "days = (case daysArg of None \<Rightarrow> 30 | Some d \<Rightarrow> d)"
    and area: "area = (case marketAreaArg of None \<Rightarrow> ''all'' | Some a \<Rightarrow> a)"
    and queried: "queried = query_between (rows db) (fullMetricId produce area) (now - days * dayMs) now"
  shows "(map (\<lambda>item. (timestamp item, pvalue item)) queried =
            [(t0, 2120), (t1, 2130), (t2, 2140), (t3, 2150), (t4, 2170), (t5, 2190), (t6, 2200)]
          \<and> t0 < t1 \<and> t1 < t2 \<and> t2 < t3 \<and> t3 < t4 \<and> t4 < t5 \<and> t5 < t6
          \<and> t0 \<le> now - 7 * dayMs \<and> now - 7 * dayMs < t1
          \<longrightarrow> (\<exists>r. getMarketPrices db now produce daysArg marketAreaArg = Inr r
                 \<and> currentPrice r = Some 2200 \<and> weeklyChange r = Some ''+3.77%''))
       \<and> ((\<forall>item \<in> set queried. now - 7 * dayMs < timestamp item)
          \<longrightarrow> (\<exists>r. getMarketPrices db now produce daysArg marketAreaArg = Inr r
                 \<and> weeklyChange r = None))"
    (is "(?series \<longrightarrow> ?reported) \<and> (?newer \<longrightarrow> ?omitted)")
proof -
  define priceData where
    "priceData = sort_key (\<lambda>point. - timestamp point) (map TimeSeriesPoint.truncate queried)"
  from getMarketPrices_report [OF up days area queried priceData_def]
  obtain r where r: "getMarketPrices db now produce daysArg marketAreaArg = Inr r"
    and cur: "currentPrice r = (if queried = [] then None else Some (pvalue (hd priceData)))"
    and wk: "weeklyChange r =
                (if queried = [] then None
                 else percent_change (pvalue (hd priceData))
                        (map_option pvalue (find (\<lambda>point. timestamp point \<le> now - 7 * dayMs) priceData)))"
    by blast
  have week: "currentPrice r = Some 2200 \<and> weeklyChange r = Some ''+3.77%''"
    if h: "map (\<lambda>item. (timestamp item, pvalue item)) queried =
            [(t0, 2120), (t1, 2130), (t2, 2140), (t3, 2150), (t4, 2170), (t5, 2190), (t6, 2200)]
          \<and> t0 < t1 \<and> t1 < t2 \<and> t2 < t3 \<and> t3 < t4 \<and> t4 < t5 \<and> t5 < t6
          \<and> t0 \<le> now - 7 * dayMs \<and> now - 7 * dayMs < t1"
  proof -
    from h have ne: "queried \<noteq> []" by auto
    from h have "map (\<lambda>point. (timestamp point, pvalue point)) (map TimeSeriesPoint.truncate queried) =
            [(t0, 2120), (t1, 2130), (t2, 2140), (t3, 2150), (t4, 2170), (t5, 2190), (t6, 2200)]"
      by (simp add: comp_def)
    then obtain p0 p1 p2 p3 p4 p5 p6 where
      ps: "map TimeSeriesPoint.truncate queried = [p0, p1, p2, p3, p4, p5, p6]"
      and g0: "(timestamp p0, pvalue p0) = (t0, 2120)" and g1: "(timestamp p1, pvalue p1) = (t1, 2130)"
      and g2: "(timestamp p2, pvalue p2) = (t2, 2140)" and g3: "(timestamp p3, pvalue p3) = (t3, 2150)"
      and g4: "(timestamp p4, pvalue p4) = (t4, 2170)" and g5: "(timestamp p5, pvalue p5) = (t5, 2190)"
      and g6: "(timestamp p6, pvalue p6) = (t6, 2200)"
      by (rule seven_points)
    from g0 g6 have f0: "timestamp p0 = t0" "pvalue p0 = 2120" and f6: "timestamp p6 = t6" "pvalue p6 = 2200"
      by simp_all
    from g1 g2 g3 g4 g5 have f1: "timestamp p1 = t1" and f2: "timestamp p2 = t2"
      and f3: "timestamp p3 = t3" and f4: "timestamp p4 = t4" and f5: "timestamp p5 = t5"
      by simp_all
    have "hd priceData = p6"
      and "find (\<lambda>point. timestamp point \<le> now - 7 * dayMs) priceData = Some p0"
      using h week_series_change [where ?p0.0 = p0 and ?p1.0 = p1 and ?p2.0 = p2 and ?p3.0 = p3
          and ?p4.0 = p4 and ?p5.0 = p5 and ?p6.0 = p6 and oneWeekAgo = "now - 7 * dayMs"
          and priceData = priceData]
      unfolding priceData_def ps
      by (simp_all only: f0 f1 f2 f3 f4 f5 f6 simp_thms)
    with ne show ?thesis
      unfolding cur wk by (simp add: f0 f6 percent_change_example)
  qed
  have omitted: "weeklyChange r = None"
    if newer: "\<forall>item \<in> set queried. now - 7 * dayMs < timestamp item"
  proof -
    have "find (\<lambda>point. timestamp point \<le> now - 7 * dayMs) priceData = None"
      unfolding priceData_def by (rule find_None_newer) (use newer in force)
    then show ?thesis
      unfolding wk by (simp add: percent_change_def)
  qed
  show ?thesis
  proof (intro conjI impI)
    assume ?series
    from week [OF this] r show ?reported by simp
  next
    assume ?newer
    from omitted [OF this] r show ?omitted by simp
  qed
qed

lemma wheat_month_query:
  "query_between (rows wheat_table) (fullMetricId ''Wheat'' ''all'') (week_now - 30 * dayMs) week_now
     = rows wheat_table"
  by (simp add: query_between_def fullMetricId_def slug_Wheat wheat_table_def mk_point_def
      week_now_def dayMs_def)

lemma wheat_three_day_query:
  "query_between (rows wheat_table) (fullMetricId ''Wheat'' ''all'') (week_now - 3 * dayMs) week_now
     = drop 4 (rows wheat_table)"
  by (simp add: query_between_def fullMetricId_def slug_Wheat wheat_table_def mk_point_def
      week_now_def dayMs_def)

theorem weekly_change_of_week_series_witness:
  "(case getMarketPrices wheat_table week_now ''Wheat'' None None of
      Inl e \<Rightarrow> None | Inr r \<Rightarrow> Some (currentPrice r, weeklyChange r))
     = Some (Some 2200, Some ''+3.77%'')
   \<and> (case getMarketPrices wheat_table week_now ''Wheat'' (Some 3) None of
      Inl e \<Rightarrow> None | Inr r \<Rightarrow> Some (weeklyChange r))
     = Some None"
proof -
  have "\<exists>r. getMarketPrices wheat_table week_now ''Wheat'' None None = Inr r
          \<and> currentPrice r = Some 2200 \<and> weeklyChange r = Some ''+3.77%''"
    using weekly_change_of_week_series [where db = wheat_table and now = week_now
        and produce = "''Wheat''" and daysArg = None and marketAreaArg = None and days = 30
        and area = "''all''" and queried = "rows wheat_table"
        and ?t0.0 = "week_now - 6 * 100800000" and ?t1.0 = "week_now - 5 * 100800000"
        and ?t2.0 = "week_now - 4 * 100800000" and ?t3.0 = "week_now - 3 * 100800000"
        and ?t4.0 = "week_now - 2 * 100800000" and ?t5.0 = "week_now - 1 * 100800000"
        and ?t6.0 = week_now]
    unfolding wheat_month_query
    by (simp add: wheat_table_def mk_point_def week_now_def dayMs_def)
  moreover
  have "\<exists>r. getMarketPrices wheat_table week_now ''Wheat'' (Some 3) None = Inr r
          \<and> weeklyChange r = None"
    using weekly_change_of_week_series [where db = wheat_table and now = week_now
        and produce = "''Wheat''" and daysArg = "Some 3" and marketAreaArg = None and days = 3
        and area = "''all''" and queried = "drop 4 (rows wheat_table)"]
    unfolding wheat_three_day_query
    by (simp add: wheat_table_def mk_point_def week_now_def dayMs_def)
  ultimately show ?thesis by auto
qed

section \<open>Properties of the knowledge graph\<close>

lemma relationshipTypeName_first: "hd (relationshipTypeName rt) \<noteq> CHR ''r''"
  by (cases rt) simp_all

lemma relationshipTypeName_not_reverse:
  "relationshipTypeName rt \<noteq> ''reverse:'' @ relationshipTypeName rt'"
  using relationshipTypeName_first [of rt] by auto

lemma put_item_member: "item \<in> set (put_item item items)"
  by (simp add: put_item_def)

lemma put_item_keeps:
  assumes "x \<in> set items" and "(nodeId x, relationshipType x) \<noteq> (nodeId item, relationshipType item)"
  shows "x \<in> set (put_item item items)"
  using assms by (simp add: put_item_def)

text \<open>The items stored under a key after a put: the new item alone when the key is its own.\<close>

lemma query_put_item:
  "filter (\<lambda>i. nodeId i = n \<and> relationshipType i = t) (put_item item items) =
     (if nodeId item = n \<and> relationshipType item = t then [item]
      else filter (\<lambda>i. nodeId i = n \<and> relationshipType i = t) items)"
  by (auto simp: put_item_def filter_empty_conv intro: filter_cong)

text \<open>
  C4: after \<open>createRelationship\<close> of \<open>(A, R, B)\<close> on a table that answers, the forward traversal
  of \<open>R\<close> from \<open>A\<close> returns \<open>[B]\<close> and the reverse traversal from \<open>B\<close> returns \<open>[A]\<close>, and the
  table holds the forward item and the reverse item \<open>(B, reverse:R, A)\<close>, the latter with the
  confidence and the properties of the former. A put replaces the item stored under the same
  key, so this holds whatever the table held before.
\<close>

theorem createRelationship_traversals:
  assumes "reachable db"
  shows "\<exists>db'. createRelationship db r = Inr db'
     \<and> getRelatedEntities db' (rel_nodeId r) (rel_relationshipType r) False = Inr [rel_targetNodeId r]
     \<and> getRelatedEntities db' (rel_targetNodeId r) (rel_relationshipType r) True = Inr [rel_nodeId r]
     \<and> (\<exists>fwd rev. fwd \<in> set (rows db') \<and> rev \<in> set (rows db')
           \<and> nodeId fwd = rel_nodeId r
           \<and> relationshipType fwd = relationshipTypeName (rel_relationshipType r)
           \<and> targetNodeId fwd = rel_targetNodeId r
           \<and> nodeId rev = rel_targetNodeId r
           \<and> relationshipType rev = ''reverse:'' @ relationshipTypeName (rel_relationshipType r)
           \<and> targetNodeId rev = rel_nodeId r
           \<and> confidence rev = confidence fwd \<and> properties rev = properties fwd)"
proof -
  define fwd where "fwd = forward_item r"
  define rev where "rev = reverse_item r"
  define items where "items = put_item rev (put_item fwd (rows db))"
  define db' where "db' = db\<lparr> rows := items \<rparr>"
  have created: "createRelationship db r = Inr db'"
    using assms by (simp add: createRelationship_def db'_def items_def fwd_def rev_def)
  have up': "reachable db'" and rows': "rows db' = items"
    using assms by (simp_all add: db'_def)
  have keys: "(nodeId fwd, relationshipType fwd) \<noteq> (nodeId rev, relationshipType rev)"
    using relationshipTypeName_not_reverse [of "rel_relationshipType r" "rel_relationshipType r"]
    by (simp add: fwd_def rev_def forward_item_def reverse_item_def)
  have "filter (\<lambda>i. nodeId i = rel_nodeId r \<and> relationshipType i = relationshipTypeName (rel_relationshipType r))
          items = [fwd]"
    unfolding items_def query_put_item
    using relationshipTypeName_not_reverse [of "rel_relationshipType r" "rel_relationshipType r"]
    by (simp add: fwd_def rev_def forward_item_def reverse_item_def)
  then have "getRelatedEntities db' (rel_nodeId r) (rel_relationshipType r) False
               = Inr (map targetNodeId (filter (\<lambda>i. entityType i = ''RELATIONSHIP'') [fwd]))"
    using up' by (simp add: getRelatedEntities_def rows' del: filter_filter)
  then have forward: "getRelatedEntities db' (rel_nodeId r) (rel_relationshipType r) False
                        = Inr [rel_targetNodeId r]"
    by (simp add: fwd_def forward_item_def)
  have "filter (\<lambda>i. nodeId i = rel_targetNodeId r
                    \<and> relationshipType i = ''reverse:'' @ relationshipTypeName (rel_relationshipType r))
          items = [rev]"
    unfolding items_def query_put_item
    by (simp add: rev_def reverse_item_def)
  then have "getRelatedEntities db' (rel_targetNodeId r) (rel_relationshipType r) True
               = Inr (map targetNodeId (filter (\<lambda>i. entityType i = ''RELATIONSHIP'') [rev]))"
    using up' by (simp add: getRelatedEntities_def rows' del: filter_filter)
  then have backward: "getRelatedEntities db' (rel_targetNodeId r) (rel_relationshipType r) True
                        = Inr [rel_nodeId r]"
    by (simp add: rev_def reverse_item_def)
  have "rev \<in> set items"
    unfolding items_def by (rule put_item_member)
  moreover have "fwd \<in> set items"
    unfolding items_def by (rule put_item_keeps [OF put_item_member keys])
  ultimately have stored:
    "\<exists>fwd rev. fwd \<in> set (rows db') \<and> rev \<in> set (rows db')
           \<and> nodeId fwd = rel_nodeId r
           \<and> relationshipType fwd = relationshipTypeName (rel_relationshipType r)
           \<and> targetNodeId fwd = rel_targetNodeId r
           \<and> nodeId rev = rel_targetNodeId r
           \<and> relationshipType rev = ''reverse:'' @ relationshipTypeName (rel_relationshipType r)
           \<and> targetNodeId rev = rel_nodeId r
           \<and> confidence rev = confidence fwd \<and> properties rev = properties fwd"
    unfolding rows'
    by (intro exI [of _ fwd] exI [of _ rev]) (simp add: fwd_def rev_def forward_item_def reverse_item_def)
  from created forward backward stored show ?thesis by blast
qed

theorem createRelationship_traversals_witness:
  "(case createRelationship crop_nodes rice_kharif of
      Inl e \<Rightarrow> None
    | Inr db' \<Rightarrow> Some (getRelatedEntities db' ''crop:rice'' GROWN_DURING False,
                       getRelatedEntities db' ''season:kharif'' GROWN_DURING True))
   = Some (Inr [''season:kharif''], Inr [''crop:rice''])"
  using createRelationship_traversals [where db = crop_nodes and r = rice_kharif]
  by (auto simp: crop_nodes_def rice_kharif_def)

subsection \<open>Crop recommendation\<close>

lemma getRecommendedCrops_unreachable:
  "\<not> reachable db \<Longrightarrow> getRecommendedCrops db districtName soilType season = default_crops"
  by (simp add: getRecommendedCrops_def recommend_try_def crop_candidates_def getRelatedEntities_def)

lemma set_order_Nil [simp]: "set_order [] = []"
  by (simp add: set_order_def)

lemma getRecommendedCrops_no_candidates:
  assumes "crop_candidates db districtName soilType season = Inr ([], [], [])"
  shows "getRecommendedCrops db districtName soilType season = []"
  using assms by (simp add: getRecommendedCrops_def recommend_try_def)

lemma crop_candidates_reachable:
  "crop_candidates db districtName soilType season = Inr c \<Longrightarrow> reachable db"
  by (cases "reachable db") (simp_all add: crop_candidates_def getRelatedEntities_def)

text \<open>
  C1: on a table that answers and holds nothing, the three traversals yield no candidate and
  \<open>getRecommendedCrops\<close> returns the empty list, not the default crops; these are returned
  only from the catch block, when a request fails.
\<close>

theorem recommend_without_candidates_is_empty:
  "crop_candidates \<lparr> reachable = True, rows = [] \<rparr> ''Pune'' ''black'' ''kharif'' = Inr ([], [], [])
   \<and> getRecommendedCrops \<lparr> reachable = True, rows = [] \<rparr> ''Pune'' ''black'' ''kharif'' = []"
  by (simp add: getRecommendedCrops_def recommend_try_def crop_candidates_def getRelatedEntities_def)

lemma set_set_order_aux:
  "set (foldl (\<lambda>seen x. if x \<in> set seen then seen else seen @ [x]) acc xs) = set acc \<union> set xs"
  by (induction xs arbitrary: acc) auto

lemma set_set_order [simp]: "set (set_order xs) = set xs"
  by (simp add: set_order_def set_set_order_aux)

lemma literal_values:
  "literal 0 1 = Double 0 0"
  "literal 2 10 = Double 7205759403792794 (- 55)"
  "literal 4 10 = Double 7205759403792794 (- 54)"
  "literal 6 10 = Double 5404319552844595 (- 53)"
  "literal 8 10 = Double 7205759403792794 (- 53)"
  "literal 1 1 = Double 4503599627370496 (- 52)"
  by code_simp+

text \<open>
  The sums that a score can go through. \<open>0.4 + 0.4\<close> is the double \<open>0.8\<close> and \<open>0.8 + 0.2\<close> is \<open>1\<close>,
  but \<open>0.4 + 0.2\<close> lies halfway between two doubles and rounds up, to the double above \<open>0.6\<close>.
\<close>

lemma score_sums:
  "dadd (Double 0 0) (Double 7205759403792794 (- 54)) = Double 7205759403792794 (- 54)"
  "dadd (Double 0 0) (Double 7205759403792794 (- 55)) = Double 7205759403792794 (- 55)"
  "dadd (Double 7205759403792794 (- 54)) (Double 7205759403792794 (- 54)) = Double 7205759403792794 (- 53)"
  "dadd (Double 7205759403792794 (- 54)) (Double 7205759403792794 (- 55)) = Double 5404319552844596 (- 53)"
  "dadd (Double 7205759403792794 (- 53)) (Double 7205759403792794 (- 55)) = Double 4503599627370496 (- 52)"
  by code_simp+

lemma score_crop_value:
  "fst (score_crop districtName soilType season locationCropIds seasonCropIds soilCropIds cid) =
     foldl dadd (literal 0 1)
       (map snd (filter fst [(cid \<in> set locationCropIds, literal 4 10),
                             (cid \<in> set seasonCropIds, literal 4 10),
                             (cid \<in> set soilCropIds, literal 2 10)]))"
  by (simp add: score_crop_def Let_def)

lemma getNode_found:
  assumes "getNode db cid = Inr (Some node)"
  shows "n_nodeId node = cid"
  using assms
  by (auto simp: getNode_def find_Some_iff split: if_splits option.splits)

lemma getNode_reachable:
  assumes "reachable db"
  shows "\<exists>found. getNode db cid = Inr found"
proof (cases "find (\<lambda>i. nodeId i = cid \<and> relationshipType i = ''NODE'') (rows db)")
  case None
  with assms show ?thesis by (simp add: getNode_def)
next
  case (Some item)
  with assms show ?thesis by (simp add: getNode_def)
qed

lemma collect_crops_details:
  assumes "reachable db"
  shows "\<exists>details. collect_crops db score ids = Inr details
     \<and> (\<forall>c \<in> set details. cropId c \<in> set ids \<and> suitabilityScore c = fst (score (cropId c))
            \<and> 0 < dval (suitabilityScore c))"
proof (induction ids)
  case Nil
  then show ?case by simp
next
  case (Cons cid rest)
  then obtain details where rest: "collect_crops db score rest = Inr details"
    and ok: "\<forall>c \<in> set details. cropId c \<in> set rest \<and> suitabilityScore c = fst (score (cropId c))
            \<and> 0 < dval (suitabilityScore c)"
    by blast
  from getNode_reachable [OF assms] obtain found where found: "getNode db cid = Inr found"
    by blast
  show ?case
  proof (cases found)
    case None
    with found rest ok show ?thesis by auto
  next
    case (Some node)
    with found have "n_nodeId node = cid" by (simp add: getNode_found)
    with Some found rest ok show ?thesis by auto
  qed
qed

lemma score_in_steps:
  assumes "s = foldl dadd (literal 0 1)
                 (map snd (filter fst [(a, literal 4 10), (b, literal 4 10), (c, literal 2 10)]))"
    and "0 < dval s"
  shows "s \<in> {literal 2 10, literal 4 10, dadd (literal 4 10) (literal 2 10), literal 8 10, literal 1 1}
       \<and> dval s \<le> 1"
  using assms by (cases a; cases b; cases c) (simp_all add: literal_values score_sums dval_def)

text \<open>
  C3, as the code has it: when the three traversals succeed, every crop that
  \<open>getRecommendedCrops\<close> returns is one of the candidates, and its score is the floating-point
  sum of the weights of the criteria it matches, added in the order location (0.4), season
  (0.4), soil (0.2). The score is positive and is one of 0.2, 0.4, 0.4 + 0.2, 0.8 and 1, so it
  never exceeds 1, and the result is in descending order of score. The sum 0.4 + 0.2 is not
  the double 0.6 but the next one above it.
\<close>

theorem recommended_scores:
  assumes "crop_candidates db districtName soilType season =
             Inr (locationCropIds, seasonCropIds, soilCropIds)"
  shows "(\<forall>c \<in> set (getRecommendedCrops db districtName soilType season).
            cropId c \<in> set locationCropIds \<union> set seasonCropIds \<union> set soilCropIds
          \<and> suitabilityScore c =
                foldl dadd (literal 0 1)
                  (map snd (filter fst [(cropId c \<in> set locationCropIds, literal 4 10),
                                        (cropId c \<in> set seasonCropIds, literal 4 10),
                                        (cropId c \<in> set soilCropIds, literal 2 10)]))
          \<and> 0 < dval (suitabilityScore c)
          \<and> suitabilityScore c \<in>
                {literal 2 10, literal 4 10, dadd (literal 4 10) (literal 2 10), literal 8 10, literal 1 1}
          \<and> dval (suitabilityScore c) \<le> 1)
       \<and> sorted_wrt (\<lambda>a b. dval (suitabilityScore b) \<le> dval (suitabilityScore a))
            (getRecommendedCrops db districtName soilType season)
       \<and> dadd (literal 4 10) (literal 2 10) = Double 5404319552844596 (- 53)
       \<and> literal 6 10 = Double 5404319552844595 (- 53)"
    (is "(\<forall>c \<in> _. ?scored c) \<and> _ \<and> ?rounded")
proof -
  define score where
    "score = score_crop districtName soilType season locationCropIds seasonCropIds soilCropIds"
  define ids where "ids = set_order (locationCropIds @ seasonCropIds @ soilCropIds)"
  from assms have up: "reachable db" by (rule crop_candidates_reachable)
  from collect_crops_details [OF up, of score ids]
  obtain details where details: "collect_crops db score ids = Inr details"
    and ok: "\<forall>c \<in> set details. cropId c \<in> set ids \<and> suitabilityScore c = fst (score (cropId c))
            \<and> 0 < dval (suitabilityScore c)"
    by blast
  have res: "getRecommendedCrops db districtName soilType season =
               sort_key (\<lambda>d. - dval (suitabilityScore d)) details"
    using assms details
    by (simp add: getRecommendedCrops_def recommend_try_def score_def ids_def)
  have each: "?scored c"
    if "c \<in> set details" for c
  proof -
    from ok that have cand: "cropId c \<in> set ids"
      and sc: "suitabilityScore c = fst (score (cropId c))" and pos: "0 < dval (suitabilityScore c)"
      by blast+
    have sum: "suitabilityScore c =
                foldl dadd (literal 0 1)
                  (map snd (filter fst [(cropId c \<in> set locationCropIds, literal 4 10),
                                        (cropId c \<in> set seasonCropIds, literal 4 10),
                                        (cropId c \<in> set soilCropIds, literal 2 10)]))"
      unfolding sc score_def by (rule score_crop_value)
    from cand have "cropId c \<in> set locationCropIds \<union> set seasonCropIds \<union> set soilCropIds"
      by (simp add: ids_def)
    with sum pos score_in_steps [OF sum pos] show ?thesis by blast
  qed
  have "sorted (map (\<lambda>d. - dval (suitabilityScore d))
                  (sort_key (\<lambda>d. - dval (suitabilityScore d)) details))"
    by (rule sorted_sort_key)
  then have ordered: "sorted_wrt (\<lambda>a b. dval (suitabilityScore b) \<le> dval (suitabilityScore a))
               (sort_key (\<lambda>d. - dval (suitabilityScore d)) details)"
    by (simp add: sorted_map)
  have rounded: "?rounded"
    by (simp add: literal_values score_sums)
  show ?thesis
    unfolding res
  proof (intro conjI)
    show "\<forall>c \<in> set (sort_key (\<lambda>d. - dval (suitabilityScore d)) details). ?scored c"
    proof (rule ballI)
      fix c
      assume "c \<in> set (sort_key (\<lambda>d. - dval (suitabilityScore d)) details)"
      then have "c \<in> set details" by simp
      then show "?scored c" by (rule each)
    qed
  next
    show "sorted_wrt (\<lambda>a b. dval (suitabilityScore b) \<le> dval (suitabilityScore a))
               (sort_key (\<lambda>d. - dval (suitabilityScore d)) details)"
      by (rule ordered)
  next
    show "dadd (literal 4 10) (literal 2 10) = Double 5404319552844596 (- 53)"
      using rounded by (rule conjunct1)
  next
    show "literal 6 10 = Double 5404319552844595 (- 53)"
      using rounded by (rule conjunct2)
  qed
qed

lemma slug_black_kharif: "slug ''black'' = ''black''" "slug ''kharif'' = ''kharif''"
  by code_simp+

lemma demo_candidates:
  "crop_candidates demo_graph ''Pune'' ''black'' ''kharif'' =
     Inr ([''crop:rice''], [''crop:rice''], [''crop:cotton''])"
  by (simp add: crop_candidates_def getRelatedEntities_def slug_Pune slug_black_kharif
      demo_graph_def crop_nodes_def node_item_def forward_item_def reverse_item_def
      pune_rice_def rice_kharif_def black_cotton_def)

lemma demo_recommendation:
  "map (\<lambda>c. (cropName c, suitabilityScore c)) (getRecommendedCrops demo_graph ''Pune'' ''black'' ''kharif'')
     = [(''Rice'', literal 8 10), (''Cotton'', literal 2 10)]"
  unfolding getRecommendedCrops_def recommend_try_def demo_candidates
  by (simp add: set_order_def score_crop_def getNode_def Let_def literal_values score_sums dval_def
      demo_graph_def crop_nodes_def node_item_def forward_item_def reverse_item_def
      pune_rice_def rice_kharif_def black_cotton_def)

theorem recommended_scores_witness:
  "map (\<lambda>c. (cropName c, suitabilityScore c)) (getRecommendedCrops demo_graph ''Pune'' ''black'' ''kharif'')
     = [(''Rice'', literal 8 10), (''Cotton'', literal 2 10)]
   \<and> list_all (\<lambda>c. suitabilityScore c \<in>
                  {literal 2 10, literal 4 10, dadd (literal 4 10) (literal 2 10), literal 8 10, literal 1 1}
                \<and> dval (suitabilityScore c) \<le> 1)
       (getRecommendedCrops demo_graph ''Pune'' ''black'' ''kharif'')
   \<and> sorted_wrt (\<lambda>a b. dval (suitabilityScore b) \<le> dval (suitabilityScore a))
       (getRecommendedCrops demo_graph ''Pune'' ''black'' ''kharif'')"
proof -
  note scores = recommended_scores [OF demo_candidates]
  from scores have "\<forall>c \<in> set (getRecommendedCrops demo_graph ''Pune'' ''black'' ''kharif'').
      suitabilityScore c \<in>
        {literal 2 10, literal 4 10, dadd (literal 4 10) (literal 2 10), literal 8 10, literal 1 1}
      \<and> dval (suitabilityScore c) \<le> 1"
    by blast
  then have "list_all (\<lambda>c. suitabilityScore c \<in>
                  {literal 2 10, literal 4 10, dadd (literal 4 10) (literal 2 10), literal 8 10, literal 1 1}
                \<and> dval (suitabilityScore c) \<le> 1)
       (getRecommendedCrops demo_graph ''Pune'' ''black'' ''kharif'')"
    unfolding list_all_iff .
  moreover from scores have "sorted_wrt (\<lambda>a b. dval (suitabilityScore b) \<le> dval (suitabilityScore a))
       (getRecommendedCrops demo_graph ''Pune'' ''black'' ''kharif'')"
    by blast
  ultimately show ?thesis using demo_recommendation by blast
qed

text \<open>
  A crop that suits the location and the soil but has no season recorded scores 0.4 + 0.2,
  which is none of the doubles 0.2, 0.4, 0.6, 0.8 and 1.
\<close>

lemma mixed_candidates:
  "crop_candidates mixed_graph ''Pune'' ''black'' ''kharif'' =
     Inr ([''crop:rice''], [], [''crop:rice''])"
  by (simp add: crop_candidates_def getRelatedEntities_def slug_Pune slug_black_kharif
      mixed_graph_def crop_nodes_def node_item_def forward_item_def reverse_item_def
      pune_rice_def black_rice_def)

theorem location_and_soil_score_is_not_six_tenths:
  "map suitabilityScore (getRecommendedCrops mixed_graph ''Pune'' ''black'' ''kharif'')
     = [dadd (literal 4 10) (literal 2 10)]
   \<and> dadd (literal 4 10) (literal 2 10)
       \<notin> {literal 2 10, literal 4 10, literal 6 10, literal 8 10, literal 1 1}
   \<and> dval (dadd (literal 4 10) (literal 2 10)) \<noteq> 6 / 10"
  unfolding getRecommendedCrops_def recommend_try_def mixed_candidates
  by (simp add: set_order_def score_crop_def getNode_def Let_def literal_values score_sums dval_def
      mixed_graph_def crop_nodes_def node_item_def forward_item_def reverse_item_def
      pune_rice_def black_rice_def)

section \<open>Properties of the vector store\<close>


lemma similarity_of_truncate [simp]:
  "similarity_of q (VectorItem.truncate item) = similarity_of q item"
  by (simp add: similarity_of_def VectorItem.truncate_def)

lemma itemMetadata_truncate [simp]:
  "itemMetadata (VectorItem.truncate item) = itemMetadata item"
  by (simp add: VectorItem.truncate_def)








end
